theory Spec2Isabelle
  imports Main
begin

section \<open>Go values: strings, integers, errors\<close>

text \<open>
  A Go string is a sequence of bytes, so a \<^typ>\<open>string\<close> here holds the UTF-8 bytes of the
  source's literal. An \<^verbatim>\<open>error\<close> is represented by its message, the result of
  \<^verbatim>\<open>err.Error()\<close>; a function returning \<^verbatim>\<open>(T, error)\<close> returns a sum with the
  message on the left.
\<close>

datatype log_entry = LogInfo string | LogWarn string | LogError string

text \<open>\<^verbatim>\<open>strings.Join\<close>.\<close>

fun Join :: "string list \<Rightarrow> string \<Rightarrow> string" where
  "Join [] sep = []"
| "Join [x] sep = x"
| "Join (x # y # ys) sep = x @ sep @ Join (y # ys) sep"

text \<open>\<^verbatim>\<open>%d\<close> of \<^verbatim>\<open>fmt.Sprintf\<close>: decimal digits, with a minus sign on a negative number.\<close>

fun decimal :: "nat \<Rightarrow> string" where
  "decimal n = (if n < 10 then [char_of (48 + n)]
                else decimal (n div 10) @ [char_of (48 + n mod 10)])"

declare decimal.simps [simp del]

definition Sprintf_d :: "int \<Rightarrow> string" where
  "Sprintf_d i = (if i < 0 then ''-'' @ decimal (nat (- i)) else decimal (nat i))"

text \<open>\<^verbatim>\<open>strconv.ParseUint(s, 10, 32)\<close>: a non-empty run of decimal digits whose value
  fits 32 bits; anything else is an error.\<close>

fun digits_value :: "int \<Rightarrow> string \<Rightarrow> int option" where
  "digits_value acc [] = Some acc"
| "digits_value acc (c # cs) =
     (if 48 \<le> (of_char c :: int) \<and> (of_char c :: int) \<le> 57
      then digits_value (10 * acc + (of_char c - 48)) cs else None)"

definition ParseUint32 :: "string \<Rightarrow> nat option" where
  "ParseUint32 s =
     (if s = [] then None
      else case digits_value 0 s of
             None \<Rightarrow> None
           | Some n \<Rightarrow> if n < 2 ^ 32 then Some (nat n) else None)"

text \<open>
  Go's \<^verbatim>\<open>int\<close> on the 64-bit platforms the server is built for: a value between
  \<open>- 2 ^ 63\<close> and \<open>2 ^ 63 - 1\<close>. Addition wraps around; division truncates
  towards zero.
\<close>

definition wrap64 :: "int \<Rightarrow> int" where
  "wrap64 x = (x + 2 ^ 63) mod 2 ^ 64 - 2 ^ 63"

definition add64 :: "int \<Rightarrow> int \<Rightarrow> int" where
  "add64 a b = wrap64 (a + b)"

definition quo :: "int \<Rightarrow> int \<Rightarrow> int" where
  "quo a b = sgn a * sgn b * (\<bar>a\<bar> div \<bar>b\<bar>)"

definition in_int64 :: "int \<Rightarrow> bool" where
  "in_int64 x = (- (2 ^ 63) \<le> x \<and> x < 2 ^ 63)"

text \<open>
  A statement sent to the database, or a write to the task registry, may fail. The
  failures are given in advance by a schedule: the \<open>n\<close>-th such statement fails with the
  message \<open>fail_at n\<close>, if there is one.
\<close>

record faults =
  fail_at :: "nat \<Rightarrow> string option"
  issued :: nat

definition attempt :: "faults \<Rightarrow> string option \<times> faults" where
  "attempt f = (fail_at f (issued f), f\<lparr>issued := Suc (issued f)\<rparr>)"

definition no_faults :: "faults" where
  "no_faults = \<lparr>fail_at = (\<lambda>n. None), issued = 0\<rparr>"

definition reliable :: "faults \<Rightarrow> bool" where
  "reliable f = (\<forall>n. fail_at f n = None)"

subsection \<open>Facts about the integers and the fault schedule\<close>

lemma reliable_issued [simp]: "reliable (f\<lparr>issued := n\<rparr>) = reliable f"
  by (simp add: reliable_def)

lemma attempt_reliable: "reliable f \<Longrightarrow> attempt f = (None, f\<lparr>issued := Suc (issued f)\<rparr>)"
  by (simp add: attempt_def reliable_def)

lemma attempt_fail_at: "attempt f = (e, f') \<Longrightarrow> fail_at f' = fail_at f"
  by (auto simp: attempt_def)

lemma wrap64_id: "in_int64 x \<Longrightarrow> wrap64 x = x"
  by (simp add: wrap64_def in_int64_def)

lemma foldl_add64:
  "0 \<le> a \<Longrightarrow> \<forall>d \<in> set ds. 0 \<le> d \<Longrightarrow> a + sum_list ds < 2 ^ 63 \<Longrightarrow>
   foldl add64 a ds = a + sum_list ds"
proof (induction ds arbitrary: a)
  case Nil
  then show ?case by simp
next
  case (Cons d ds)
  have nonneg: "0 \<le> sum_list ds" using Cons.prems(2) by (simp add: sum_list_nonneg)
  have "in_int64 (a + d)" using Cons.prems nonneg by (simp add: in_int64_def)
  then have step: "add64 a d = a + d" by (simp add: add64_def wrap64_id)
  have "foldl add64 (a + d) ds = (a + d) + sum_list ds"
    using Cons.prems by (intro Cons.IH) auto
  with step show ?case by simp
qed

lemma quo_nonneg: "0 \<le> a \<Longrightarrow> 0 < b \<Longrightarrow> quo a b = a div b"
  by (cases "a = 0") (simp_all add: quo_def)

lemma rounded_up_minutes:
  assumes "0 \<le> t" and "t + 59 < 2 ^ 63"
  shows "quo (add64 t 59) 60 = (t + 59) div 60"
proof -
  have "in_int64 (t + 59)" using assms by (simp add: in_int64_def)
  then have "add64 t 59 = t + 59" by (simp add: add64_def wrap64_id)
  with assms show ?thesis by (simp add: quo_nonneg)
qed

section \<open>The task registry\<close>

text \<open>
  A task row with the fields the orchestrators write. The registry holds the one task of
  the job under study; the task identifier the functions pass around selects it.
\<close>

datatype task_status = Pending | Processing | Completed | Failed

record 'r Task =
  task_status :: task_status
  task_progress :: int
  task_message :: string
  task_result :: "'r option"
  task_error :: "string option"

record 'r registry =
  reg_task :: "'r Task"
  reg_faults :: faults

definition terminal :: "task_status \<Rightarrow> bool" where
  "terminal s = (s = Completed \<or> s = Failed)"

definition new_task :: "'r Task" where
  "new_task = \<lparr>task_status = Pending, task_progress = 0, task_message = [],
               task_result = None, task_error = None\<rparr>"

text \<open>
  Modelled from the spec: the methods \<^verbatim>\<open>UpdateTaskStatus\<close>, \<^verbatim>\<open>UpdateTaskError\<close> and
  \<^verbatim>\<open>UpdateTaskResult\<close> of the task service, whose file is not among the sources. After
  the spec's task registry: \<^verbatim>\<open>update_status\<close> reports status, progress and message;
  \<^verbatim>\<open>fail\<close> moves the task to failed and stores the error message; \<^verbatim>\<open>complete\<close> moves
  it to completed and stores the result; none of them leaves a terminal state. Each is a
  write that may fail, and a failed or refused write leaves the task as it was. The result
  is Go's \<^verbatim>\<open>error\<close>: \<open>None\<close> for \<^verbatim>\<open>nil\<close>.
\<close>

definition registry_write ::
  "('r Task \<Rightarrow> 'r Task) \<Rightarrow> 'r registry \<Rightarrow> string option \<times> 'r registry" where
  "registry_write change reg =
     (case attempt (reg_faults reg) of
        (Some err, f) \<Rightarrow> (Some err, reg\<lparr>reg_faults := f\<rparr>)
      | (None, f) \<Rightarrow>
          if terminal (task_status (reg_task reg))
          then (Some ''invalid transition'', reg\<lparr>reg_faults := f\<rparr>)
          else (None, reg\<lparr>reg_task := change (reg_task reg), reg_faults := f\<rparr>))"

definition UpdateTaskStatus ::
  "task_status \<Rightarrow> int \<Rightarrow> string \<Rightarrow> 'r registry \<Rightarrow> string option \<times> 'r registry" where
  "UpdateTaskStatus st progress msg =
     registry_write (\<lambda>t. t\<lparr>task_status := st, task_progress := progress, task_message := msg\<rparr>)"

definition UpdateTaskError :: "string \<Rightarrow> 'r registry \<Rightarrow> string option \<times> 'r registry" where
  "UpdateTaskError err =
     registry_write (\<lambda>t. t\<lparr>task_status := Failed, task_error := Some err\<rparr>)"

definition UpdateTaskResult :: "'r \<Rightarrow> 'r registry \<Rightarrow> string option \<times> 'r registry" where
  "UpdateTaskResult result =
     registry_write (\<lambda>t. t\<lparr>task_status := Completed, task_result := Some result\<rparr>)"

subsection \<open>What a write to the registry does\<close>

lemma registry_write_cases:
  assumes "registry_write change reg = (e, reg')"
  shows "(case e of
            None \<Rightarrow> \<not> terminal (task_status (reg_task reg)) \<and> reg_task reg' = change (reg_task reg)
          | Some err \<Rightarrow> reg_task reg' = reg_task reg)"
  using assms
  by (auto simp: registry_write_def attempt_def split: option.splits if_splits)

lemma UpdateTaskStatus_cases:
  assumes "UpdateTaskStatus st p m reg = (e, reg')"
  shows "(case e of
            None \<Rightarrow> task_status (reg_task reg') = st
          | Some err \<Rightarrow> reg_task reg' = reg_task reg)"
  using registry_write_cases [OF assms [unfolded UpdateTaskStatus_def]]
  by (auto split: option.splits)

lemma UpdateTaskError_status:
  "task_status (reg_task (snd (UpdateTaskError m reg))) = Failed
   \<or> reg_task (snd (UpdateTaskError m reg)) = reg_task reg"
proof -
  obtain e reg' where w: "registry_write (\<lambda>t. t\<lparr>task_status := Failed, task_error := Some m\<rparr>) reg = (e, reg')"
    by force
  from registry_write_cases [OF w] w show ?thesis
    by (auto simp: UpdateTaskError_def split: option.splits)
qed

lemma UpdateTaskResult_status:
  "task_status (reg_task (snd (UpdateTaskResult p reg))) = Completed
     \<and> task_result (reg_task (snd (UpdateTaskResult p reg))) = Some p
   \<or> reg_task (snd (UpdateTaskResult p reg)) = reg_task reg"
proof -
  obtain e reg' where w: "registry_write (\<lambda>t. t\<lparr>task_status := Completed, task_result := Some p\<rparr>) reg = (e, reg')"
    by force
  from registry_write_cases [OF w] w show ?thesis
    by (auto simp: UpdateTaskResult_def split: option.splits)
qed

lemma registry_write_reliable:
  "reliable (reg_faults reg) \<Longrightarrow> \<not> terminal (task_status (reg_task reg)) \<Longrightarrow>
   registry_write change reg =
     (None, reg\<lparr>reg_task := change (reg_task reg),
                reg_faults := (reg_faults reg)\<lparr>issued := Suc (issued (reg_faults reg))\<rparr>\<rparr>)"
  by (simp add: registry_write_def attempt_reliable)

section \<open>Reading the model's answer as JSON\<close>

text \<open>
  The value a JSON text denotes. How a text is read into a value (\<^verbatim>\<open>encoding/json\<close>) and
  how one element is decoded into a struct are the standard library's work; the functions
  below take them as the parameters \<open>decode\<close> and \<open>item\<close> and hold for every choice
  of them.
\<close>

datatype json =
    JNull
  | JBool bool
  | JNum int
  | JStr string
  | JArr "json list"
  | JObj "(string \<times> json) list"

text \<open>
  \<^verbatim>\<open>json.Unmarshal\<close> into a slice: an array gives its elements, each decoded, where a
  \<^verbatim>\<open>null\<close> element leaves the element's zero value; \<^verbatim>\<open>null\<close> gives the nil slice;
  every other value is an error.
\<close>

definition unmarshal_slice :: "(json \<Rightarrow> 'a option) \<Rightarrow> 'a \<Rightarrow> json \<Rightarrow> 'a list option" where
  "unmarshal_slice item zero j =
     (case j of
        JArr js \<Rightarrow> those (map (\<lambda>e. if e = JNull then Some zero else item e) js)
      | JNull \<Rightarrow> Some []
      | _ \<Rightarrow> None)"

text \<open>
  The scalar targets: \<^verbatim>\<open>int\<close>, \<^verbatim>\<open>uint\<close>, \<^verbatim>\<open>string\<close> and \<^verbatim>\<open>bool\<close>. A number outside
  the range of the target is an error, as is a value of another kind.
\<close>

definition unmarshal_int :: "json \<Rightarrow> int option" where
  "unmarshal_int j = (case j of JNum n \<Rightarrow> if in_int64 n then Some n else None | _ \<Rightarrow> None)"

definition unmarshal_uint :: "json \<Rightarrow> nat option" where
  "unmarshal_uint j =
     (case j of JNum n \<Rightarrow> if 0 \<le> n \<and> n < 2 ^ 64 then Some (nat n) else None | _ \<Rightarrow> None)"

definition unmarshal_string :: "json \<Rightarrow> string option" where
  "unmarshal_string j = (case j of JStr s \<Rightarrow> Some s | _ \<Rightarrow> None)"

definition unmarshal_bool :: "json \<Rightarrow> bool option" where
  "unmarshal_bool j = (case j of JBool b \<Rightarrow> Some b | _ \<Rightarrow> None)"

text \<open>
  What a member's value does to the field it is decoded into, given the field's current
  value: a scalar field keeps its value on \<^verbatim>\<open>null\<close>; a pointer field becomes nil on
  \<^verbatim>\<open>null\<close> and points to the decoded value otherwise; a slice field is replaced.
\<close>

definition scalar :: "(json \<Rightarrow> 'b option) \<Rightarrow> 'b \<Rightarrow> json \<Rightarrow> 'b option" where
  "scalar dec cur v = (if v = JNull then Some cur else dec v)"

definition pointer :: "(json \<Rightarrow> 'b option) \<Rightarrow> 'b option \<Rightarrow> json \<Rightarrow> 'b option option" where
  "pointer dec cur v = (if v = JNull then Some None else map_option Some (dec v))"

definition slice :: "(json \<Rightarrow> 'b option) \<Rightarrow> 'b \<Rightarrow> 'b list \<Rightarrow> json \<Rightarrow> 'b list option" where
  "slice item zero cur v = unmarshal_slice item zero v"

text \<open>
  Matching a member's key with a struct tag: equal after case folding. The tags are ASCII,
  so the folding that matters maps the capital letters to the small ones, the long s
  (U+017F, bytes C5 BF) to \<^verbatim>\<open>s\<close> and the Kelvin sign (U+212A, bytes E2 84 AA) to \<^verbatim>\<open>k\<close>.
\<close>

definition capitals :: "(char \<times> char) list" where
  "capitals = zip ''ABCDEFGHIJKLMNOPQRSTUVWXYZ'' ''abcdefghijklmnopqrstuvwxyz''"

definition lower :: "char \<Rightarrow> char" where
  "lower c = (case map_of capitals c of Some d \<Rightarrow> d | None \<Rightarrow> c)"

fun fold_case :: "string \<Rightarrow> string" where
  "fold_case [] = []"
| "fold_case [c] = [lower c]"
| "fold_case [c, d] = (if c = CHR 0xC5 \<and> d = CHR 0xBF then ''s'' else [lower c, lower d])"
| "fold_case (c # d # e # cs) =
     (if c = CHR 0xC5 \<and> d = CHR 0xBF then CHR ''s'' # fold_case (e # cs)
      else if c = CHR 0xE2 \<and> d = CHR 0x84 \<and> e = CHR 0xAA then CHR ''k'' # fold_case cs
      else lower c # fold_case (d # e # cs))"

definition EqualFold :: "string \<Rightarrow> string \<Rightarrow> bool" where
  "EqualFold a b = (if a = b then True else fold_case a = fold_case b)"

text \<open>
  The members of a JSON object decoded into the struct field with tag \<open>tag\<close>: the
  members are taken in order, each one whose key matches the tag is decoded into the
  field, and an error in any of them is an error of the whole.
\<close>

fun unmarshal_field ::
  "string \<Rightarrow> ('b \<Rightarrow> json \<Rightarrow> 'b option) \<Rightarrow> 'b \<Rightarrow> (string \<times> json) list \<Rightarrow> 'b option" where
  "unmarshal_field tag dec cur [] = Some cur"
| "unmarshal_field tag dec cur ((k, v) # ms) =
     (if EqualFold k tag then
        (case dec cur v of
           None \<Rightarrow> None
         | Some x \<Rightarrow> unmarshal_field tag dec x ms)
      else unmarshal_field tag dec cur ms)"

text \<open>
  The first balanced bracketed part of a text: from the first \<^verbatim>\<open>{\<close> or \<^verbatim>\<open>[\<close> to the
  bracket that closes it, brackets inside string literals not counted.
\<close>

datatype scan_mode = Plain | InString | Escaped

fun balanced_prefix :: "nat \<Rightarrow> scan_mode \<Rightarrow> string \<Rightarrow> string option" where
  "balanced_prefix depth mode [] = None"
| "balanced_prefix depth Escaped (c # cs) = map_option ((#) c) (balanced_prefix depth InString cs)"
| "balanced_prefix depth InString (c # cs) =
     map_option ((#) c)
       (balanced_prefix depth
          (if c = CHR 0x5C then Escaped else if c = CHR 0x22 then Plain else InString) cs)"
| "balanced_prefix depth Plain (c # cs) =
     (if c = CHR 0x22 then map_option ((#) c) (balanced_prefix depth InString cs)
      else if c = CHR ''{'' \<or> c = CHR ''['' then
        map_option ((#) c) (balanced_prefix (Suc depth) Plain cs)
      else if c = CHR ''}'' \<or> c = CHR '']'' then
        (if depth \<le> 1 then Some [c] else map_option ((#) c) (balanced_prefix (depth - 1) Plain cs))
      else map_option ((#) c) (balanced_prefix depth Plain cs))"

definition first_balanced :: "string \<Rightarrow> string option" where
  "first_balanced text =
     balanced_prefix 0 Plain (dropWhile (\<lambda>c. c \<noteq> CHR ''{'' \<and> c \<noteq> CHR ''['') text)"

text \<open>
  Modelled from the spec: \<^verbatim>\<open>utils.SafeParseAIJSON(text, &target)\<close>, whose file is not
  among the sources. After the spec's resilient extractor: parse the text directly into
  the target shape; on failure locate the first balanced JSON substring of the text and
  parse that; when both fail, report a parse error that carries the first 500 bytes of the
  raw answer. The target shape is the second argument: the Go function reads it off the
  type of the pointer it is given.
\<close>

datatype parse_error = ParseError string

definition SafeParseAIJSON ::
  "(string \<Rightarrow> json option) \<Rightarrow> (json \<Rightarrow> 'a option) \<Rightarrow> string \<Rightarrow> parse_error + 'a" where
  "SafeParseAIJSON decode target text =
     (case Option.bind (decode text) target of
        Some v \<Rightarrow> Inr v
      | None \<Rightarrow>
          (case Option.bind (Option.bind (first_balanced text) decode) target of
             Some v \<Rightarrow> Inr v
           | None \<Rightarrow> Inl (ParseError (take 500 text))))"

definition Error :: "parse_error \<Rightarrow> string" where
  "Error e = (case e of ParseError preview \<Rightarrow> ''cannot parse AI response: '' @ preview)"

subsection \<open>A reader for plain JSON texts\<close>

text \<open>
  To run the functions on concrete answers, a reader for the part of JSON the examples
  use: objects, arrays, strings without escapes, integers without leading zeros, \<^verbatim>\<open>true\<close>,
  \<^verbatim>\<open>false\<close> and \<^verbatim>\<open>null\<close>, with blanks between tokens. It reads no text that
  \<^verbatim>\<open>encoding/json\<close> rejects; texts with escapes, fractions or exponents it does not read. The first argument bounds the nesting and the
  number of elements read; \<open>json_read\<close> takes the length of the text for it.
\<close>

definition skip_ws :: "string \<Rightarrow> string" where
  "skip_ws = dropWhile (\<lambda>c. c = CHR '' '' \<or> c = CHR 0x0A \<or> c = CHR 0x0D \<or> c = CHR 0x09)"

fun read_string :: "string \<Rightarrow> (string \<times> string) option" where
  "read_string [] = None"
| "read_string (c # cs) =
     (if c = CHR 0x22 then Some ([], cs)
      else if c = CHR 0x5C then None
      else map_option (\<lambda>(s, rest). (c # s, rest)) (read_string cs))"

definition is_digit :: "char \<Rightarrow> bool" where
  "is_digit c = (48 \<le> (of_char c :: int) \<and> (of_char c :: int) \<le> 57)"

definition read_nat :: "string \<Rightarrow> (int \<times> string) option" where
  "read_nat cs =
     (let digits = takeWhile is_digit cs in
      if digits = [] \<or> (length digits > 1 \<and> hd digits = CHR ''0'') then None
      else case digits_value 0 digits of
             None \<Rightarrow> None
           | Some n \<Rightarrow> Some (n, dropWhile is_digit cs))"

fun starts_with :: "string \<Rightarrow> string \<Rightarrow> string option" where
  "starts_with [] cs = Some cs"
| "starts_with (p # ps) [] = None"
| "starts_with (p # ps) (c # cs) = (if p = c then starts_with ps cs else None)"

fun read_value :: "nat \<Rightarrow> string \<Rightarrow> (json \<times> string) option"
  and read_elems :: "nat \<Rightarrow> string \<Rightarrow> (json list \<times> string) option"
  and read_members :: "nat \<Rightarrow> string \<Rightarrow> ((string \<times> json) list \<times> string) option" where
  "read_value 0 cs = None"
| "read_value (Suc n) cs =
     (case skip_ws cs of
        [] \<Rightarrow> None
      | c # rest \<Rightarrow>
          if c = CHR 0x22 then map_option (\<lambda>(s, r). (JStr s, r)) (read_string rest)
          else if c = CHR ''['' then
            (case skip_ws rest of
               [] \<Rightarrow> None
             | d # rest' \<Rightarrow>
                 if d = CHR '']'' then Some (JArr [], rest')
                 else map_option (\<lambda>(vs, r). (JArr vs, r)) (read_elems n rest))
          else if c = CHR ''{'' then
            (case skip_ws rest of
               [] \<Rightarrow> None
             | d # rest' \<Rightarrow>
                 if d = CHR ''}'' then Some (JObj [], rest')
                 else map_option (\<lambda>(ms, r). (JObj ms, r)) (read_members n rest))
          else if c = CHR ''-'' then map_option (\<lambda>(k, r). (JNum (- k), r)) (read_nat rest)
          else if is_digit c then map_option (\<lambda>(k, r). (JNum k, r)) (read_nat (c # rest))
          else
            (case starts_with ''true'' (c # rest) of
               Some r \<Rightarrow> Some (JBool True, r)
             | None \<Rightarrow>
                 (case starts_with ''false'' (c # rest) of
                    Some r \<Rightarrow> Some (JBool False, r)
                  | None \<Rightarrow>
                      (case starts_with ''null'' (c # rest) of
                         Some r \<Rightarrow> Some (JNull, r)
                       | None \<Rightarrow> None))))"
| "read_elems 0 cs = None"
| "read_elems (Suc n) cs =
     (case read_value n cs of
        None \<Rightarrow> None
      | Some (v, rest) \<Rightarrow>
          (case skip_ws rest of
             [] \<Rightarrow> None
           | c # rest' \<Rightarrow>
               if c = CHR '','' then map_option (\<lambda>(vs, r). (v # vs, r)) (read_elems n rest')
               else if c = CHR '']'' then Some ([v], rest')
               else None))"
| "read_members 0 cs = None"
| "read_members (Suc n) cs =
     (case skip_ws cs of
        [] \<Rightarrow> None
      | q # rest \<Rightarrow>
          if q \<noteq> CHR 0x22 then None
          else
            (case read_string rest of
               None \<Rightarrow> None
             | Some (k, rest1) \<Rightarrow>
                 (case skip_ws rest1 of
                    [] \<Rightarrow> None
                  | c # rest2 \<Rightarrow>
                      if c \<noteq> CHR '':'' then None
                      else
                        (case read_value n rest2 of
                           None \<Rightarrow> None
                         | Some (v, rest3) \<Rightarrow>
                             (case skip_ws rest3 of
                                [] \<Rightarrow> None
                              | d # rest4 \<Rightarrow>
                                  if d = CHR '','' then
                                    map_option (\<lambda>(ms, r). ((k, v) # ms, r)) (read_members n rest4)
                                  else if d = CHR ''}'' then Some ([(k, v)], rest4)
                                  else None)))))"

definition json_read :: "string \<Rightarrow> json option" where
  "json_read text =
     (case read_value (Suc (length text)) text of
        None \<Rightarrow> None
      | Some (v, rest) \<Rightarrow> if skip_ws rest = [] then Some v else None)"

subsection \<open>Messages of the storyboard service\<close>

text \<open>The texts are the UTF-8 bytes of the Chinese literals in the source; the comment
  gives each one's meaning.\<close>

definition msg_storyboard_started :: string where \<comment> \<open>storyboard generation has started\<close>
  "msg_storyboard_started = [CHR 0xE5, CHR 0xBC, CHR 0x80, CHR 0xE5, CHR 0xA7, CHR 0x8B, CHR 0xE7, CHR 0x94, CHR 0x9F, CHR 0xE6, CHR 0x88, CHR 0x90, CHR 0xE5, CHR 0x88, CHR 0x86, CHR 0xE9, CHR 0x95, CHR 0x9C, CHR 0xE5, CHR 0xA4, CHR 0xB4] @ ''...''"

definition msg_generation_failed :: string where \<comment> \<open>generating the storyboard failed: (prefix of the error)\<close>
  "msg_generation_failed = [CHR 0xE7, CHR 0x94, CHR 0x9F, CHR 0xE6, CHR 0x88, CHR 0x90, CHR 0xE5, CHR 0x88, CHR 0x86, CHR 0xE9, CHR 0x95, CHR 0x9C, CHR 0xE5, CHR 0xA4, CHR 0xB4, CHR 0xE5, CHR 0xA4, CHR 0xB1, CHR 0xE8, CHR 0xB4, CHR 0xA5] @ '': ''"

definition msg_parsing :: string where \<comment> \<open>generation done, parsing the result\<close>
  "msg_parsing = [CHR 0xE5, CHR 0x88, CHR 0x86, CHR 0xE9, CHR 0x95, CHR 0x9C, CHR 0xE5, CHR 0xA4, CHR 0xB4, CHR 0xE7, CHR 0x94, CHR 0x9F, CHR 0xE6, CHR 0x88, CHR 0x90, CHR 0xE5, CHR 0xAE, CHR 0x8C, CHR 0xE6, CHR 0x88, CHR 0x90, CHR 0xEF, CHR 0xBC, CHR 0x8C, CHR 0xE6, CHR 0xAD, CHR 0xA3, CHR 0xE5, CHR 0x9C, CHR 0xA8, CHR 0xE8, CHR 0xA7, CHR 0xA3, CHR 0xE6, CHR 0x9E, CHR 0x90, CHR 0xE7, CHR 0xBB, CHR 0x93, CHR 0xE6, CHR 0x9E, CHR 0x9C] @ ''...''"

definition msg_parse_failed :: string where \<comment> \<open>parsing the storyboard result failed: (prefix)\<close>
  "msg_parse_failed = [CHR 0xE8, CHR 0xA7, CHR 0xA3, CHR 0xE6, CHR 0x9E, CHR 0x90, CHR 0xE5, CHR 0x88, CHR 0x86, CHR 0xE9, CHR 0x95, CHR 0x9C, CHR 0xE5, CHR 0xA4, CHR 0xB4, CHR 0xE7, CHR 0xBB, CHR 0x93, CHR 0xE6, CHR 0x9E, CHR 0x9C, CHR 0xE5, CHR 0xA4, CHR 0xB1, CHR 0xE8, CHR 0xB4, CHR 0xA5] @ '': ''"

definition msg_saving :: string where \<comment> \<open>saving the storyboards\<close>
  "msg_saving = [CHR 0xE6, CHR 0xAD, CHR 0xA3, CHR 0xE5, CHR 0x9C, CHR 0xA8, CHR 0xE4, CHR 0xBF, CHR 0x9D, CHR 0xE5, CHR 0xAD, CHR 0x98, CHR 0xE5, CHR 0x88, CHR 0x86, CHR 0xE9, CHR 0x95, CHR 0x9C, CHR 0xE5, CHR 0xA4, CHR 0xB4] @ ''...''"

definition msg_save_failed :: string where \<comment> \<open>saving the storyboards failed: (prefix)\<close>
  "msg_save_failed = [CHR 0xE4, CHR 0xBF, CHR 0x9D, CHR 0xE5, CHR 0xAD, CHR 0x98, CHR 0xE5, CHR 0x88, CHR 0x86, CHR 0xE9, CHR 0x95, CHR 0x9C, CHR 0xE5, CHR 0xA4, CHR 0xB4, CHR 0xE5, CHR 0xA4, CHR 0xB1, CHR 0xE8, CHR 0xB4, CHR 0xA5] @ '': ''"

definition msg_updating_duration :: string where \<comment> \<open>updating the duration of the episode\<close>
  "msg_updating_duration = [CHR 0xE6, CHR 0xAD, CHR 0xA3, CHR 0xE5, CHR 0x9C, CHR 0xA8, CHR 0xE6, CHR 0x9B, CHR 0xB4, CHR 0xE6, CHR 0x96, CHR 0xB0, CHR 0xE5, CHR 0x89, CHR 0xA7, CHR 0xE9, CHR 0x9B, CHR 0x86, CHR 0xE6, CHR 0x97, CHR 0xB6, CHR 0xE9, CHR 0x95, CHR 0xBF] @ ''...''"

definition msg_episode_missing :: string where \<comment> \<open>the episode does not exist: (prefix)\<close>
  "msg_episode_missing = [CHR 0xE7, CHR 0xAB, CHR 0xA0, CHR 0xE8, CHR 0x8A, CHR 0x82, CHR 0xE4, CHR 0xB8, CHR 0x8D, CHR 0xE5, CHR 0xAD, CHR 0x98, CHR 0xE5, CHR 0x9C, CHR 0xA8] @ '': ''"

definition msg_invalid_episode_id :: string where \<comment> \<open>invalid episode identifier: (prefix)\<close>
  "msg_invalid_episode_id = [CHR 0xE6, CHR 0x97, CHR 0xA0, CHR 0xE6, CHR 0x95, CHR 0x88, CHR 0xE7, CHR 0x9A, CHR 0x84, CHR 0xE7, CHR 0xAB, CHR 0xA0, CHR 0xE8, CHR 0x8A, CHR 0x82] @ ''ID: ''"

definition msg_no_storyboards :: string where \<comment> \<open>AI storyboard generation failed: zero storyboards returned\<close>
  "msg_no_storyboards = ''AI'' @ [CHR 0xE7, CHR 0x94, CHR 0x9F, CHR 0xE6, CHR 0x88, CHR 0x90, CHR 0xE5, CHR 0x88, CHR 0x86, CHR 0xE9, CHR 0x95, CHR 0x9C, CHR 0xE5, CHR 0xA4, CHR 0xB1, CHR 0xE8, CHR 0xB4, CHR 0xA5, CHR 0xEF, CHR 0xBC, CHR 0x9A, CHR 0xE8, CHR 0xBF, CHR 0x94, CHR 0xE5, CHR 0x9B, CHR 0x9E, CHR 0xE7, CHR 0x9A, CHR 0x84, CHR 0xE5, CHR 0x88, CHR 0x86, CHR 0xE9, CHR 0x95, CHR 0x9C, CHR 0xE6, CHR 0x95, CHR 0xB0, CHR 0xE9, CHR 0x87, CHR 0x8F, CHR 0xE4, CHR 0xB8, CHR 0xBA] @ ''0''"

section \<open>The text model behind the orchestrators\<close>

text \<open>
  The AI service (not among the sources) is the environment of every orchestrator: the
  lookup of a client by model name, that client's \<^verbatim>\<open>GenerateText\<close> and the service's own
  \<^verbatim>\<open>GenerateText\<close> with the default configuration. A client is named by its model. The
  number passed first is the count of generations made so far in the job, so that two
  calls with the same prompt may be answered differently. The option arguments
  (\<^verbatim>\<open>ai.WithMaxTokens\<close>, \<^verbatim>\<open>ai.WithTemperature\<close>) go to the provider and are left out.
\<close>

record text_ai =
  GetAIClientForModel :: "string \<Rightarrow> string \<Rightarrow> string option"
  ClientGenerateText :: "string \<Rightarrow> nat \<Rightarrow> string \<Rightarrow> string \<Rightarrow> string + string"
  GenerateText :: "nat \<Rightarrow> string \<Rightarrow> string \<Rightarrow> string + string"

text \<open>The block every orchestrator repeats: the client of the given model if a model is
  given and its lookup succeeds, the default otherwise.\<close>

definition generate_with ::
  "text_ai \<Rightarrow> string \<Rightarrow> nat \<Rightarrow> string \<Rightarrow> string \<Rightarrow> string + string" where
  "generate_with ai model n prompt systemPrompt =
     (if model \<noteq> [] then
        (case GetAIClientForModel ai ''text'' model of
           Some getErr \<Rightarrow> GenerateText ai n prompt systemPrompt
         | None \<Rightarrow> ClientGenerateText ai model n prompt systemPrompt)
      else GenerateText ai n prompt systemPrompt)"

section \<open>Storyboard generation\<close>

subsection \<open>Parsed shots\<close>

record Storyboard =
  ShotNumber :: int
  Title :: string
  ShotType :: string
  Angle :: string
  Time :: string
  Location :: string
  SceneID :: "nat option"
  Movement :: string
  Action :: string
  Dialogue :: string
  Result :: string
  Atmosphere :: string
  Emotion :: string
  Duration :: int
  BgmPrompt :: string
  SoundEffect :: string
  Characters :: "nat list"
  IsPrimary :: bool

record GenerateStoryboardResult =
  Storyboards :: "Storyboard list"
  Total :: int

text \<open>
  \<^verbatim>\<open>json.Unmarshal\<close> into a \<^verbatim>\<open>Storyboard\<close>, by the struct's tags: an object gives the
  fields its members name, the others keep their zero value; \<^verbatim>\<open>null\<close> leaves the zero
  value; any other value is an error.
\<close>

definition zero_Storyboard :: Storyboard where
  "zero_Storyboard =
     \<lparr>ShotNumber = 0, Title = [], ShotType = [], Angle = [], Time = [], Location = [],
      SceneID = None, Movement = [], Action = [], Dialogue = [], Result = [], Atmosphere = [],
      Emotion = [], Duration = 0, BgmPrompt = [], SoundEffect = [], Characters = [],
      IsPrimary = False\<rparr>"

definition unmarshal_Storyboard :: "json \<Rightarrow> Storyboard option" where
  "unmarshal_Storyboard j =
     (case j of
        JObj ms \<Rightarrow>
          Option.bind (unmarshal_field ''shot_number'' (scalar unmarshal_int) 0 ms) (\<lambda>shotNumber'.
          Option.bind (unmarshal_field ''title'' (scalar unmarshal_string) [] ms) (\<lambda>title'.
          Option.bind (unmarshal_field ''shot_type'' (scalar unmarshal_string) [] ms) (\<lambda>shotType'.
          Option.bind (unmarshal_field ''angle'' (scalar unmarshal_string) [] ms) (\<lambda>angle'.
          Option.bind (unmarshal_field ''time'' (scalar unmarshal_string) [] ms) (\<lambda>time'.
          Option.bind (unmarshal_field ''location'' (scalar unmarshal_string) [] ms) (\<lambda>location'.
          Option.bind (unmarshal_field ''scene_id'' (pointer unmarshal_uint) None ms) (\<lambda>sceneId'.
          Option.bind (unmarshal_field ''movement'' (scalar unmarshal_string) [] ms) (\<lambda>movement'.
          Option.bind (unmarshal_field ''action'' (scalar unmarshal_string) [] ms) (\<lambda>action'.
          Option.bind (unmarshal_field ''dialogue'' (scalar unmarshal_string) [] ms) (\<lambda>dialogue'.
          Option.bind (unmarshal_field ''result'' (scalar unmarshal_string) [] ms) (\<lambda>result'.
          Option.bind (unmarshal_field ''atmosphere'' (scalar unmarshal_string) [] ms) (\<lambda>atmosphere'.
          Option.bind (unmarshal_field ''emotion'' (scalar unmarshal_string) [] ms) (\<lambda>emotion'.
          Option.bind (unmarshal_field ''duration'' (scalar unmarshal_int) 0 ms) (\<lambda>duration'.
          Option.bind (unmarshal_field ''bgm_prompt'' (scalar unmarshal_string) [] ms) (\<lambda>bgmPrompt'.
          Option.bind (unmarshal_field ''sound_effect'' (scalar unmarshal_string) [] ms) (\<lambda>soundEffect'.
          Option.bind (unmarshal_field ''characters'' (slice unmarshal_uint 0) [] ms) (\<lambda>characters'.
          Option.bind (unmarshal_field ''is_primary'' (scalar unmarshal_bool) False ms) (\<lambda>isPrimary'.
            Some \<lparr>ShotNumber = shotNumber',
                  Title = title',
                  ShotType = shotType',
                  Angle = angle',
                  Time = time',
                  Location = location',
                  SceneID = sceneId',
                  Movement = movement',
                  Action = action',
                  Dialogue = dialogue',
                  Result = result',
                  Atmosphere = atmosphere',
                  Emotion = emotion',
                  Duration = duration',
                  BgmPrompt = bgmPrompt',
                  SoundEffect = soundEffect',
                  Characters = characters',
                  IsPrimary = isPrimary'\<rparr>))))))))))))))))))
      | JNull \<Rightarrow> Some zero_Storyboard
      | _ \<Rightarrow> None)"

text \<open>\<^verbatim>\<open>json.Unmarshal\<close> into a \<^verbatim>\<open>GenerateStoryboardResult\<close>: an object, with its
  members \<^verbatim>\<open>storyboards\<close> and \<^verbatim>\<open>total\<close>; \<^verbatim>\<open>null\<close> leaves the zero value.\<close>

definition unmarshal_GenerateStoryboardResult :: "json \<Rightarrow> GenerateStoryboardResult option" where
  "unmarshal_GenerateStoryboardResult j =
     (case j of
        JObj ms \<Rightarrow>
          (case unmarshal_field ''storyboards'' (slice unmarshal_Storyboard zero_Storyboard) [] ms of
             None \<Rightarrow> None
           | Some sbs \<Rightarrow>
               (case unmarshal_field ''total'' (scalar unmarshal_int) 0 ms of
                  None \<Rightarrow> None
                | Some t \<Rightarrow> Some \<lparr>Storyboards = sbs, Total = t\<rparr>))
      | JNull \<Rightarrow> Some \<lparr>Storyboards = [], Total = 0\<rparr>
      | _ \<Rightarrow> None)"

text \<open>The parsing step of \<^verbatim>\<open>processStoryboardGeneration\<close>: the array shape first, the
  object shape on failure; \<^verbatim>\<open>Total\<close> is set to the number of shots in both cases.\<close>

definition parse_storyboards ::
  "(string \<Rightarrow> json option) \<Rightarrow> string \<Rightarrow> parse_error + GenerateStoryboardResult" where
  "parse_storyboards decode text =
     (case SafeParseAIJSON decode (unmarshal_slice unmarshal_Storyboard zero_Storyboard) text of
        Inr storyboards \<Rightarrow>
          Inr \<lparr>Storyboards = storyboards, Total = int (length storyboards)\<rparr>
      | Inl _ \<Rightarrow>
          (case SafeParseAIJSON decode unmarshal_GenerateStoryboardResult text of
             Inl err \<Rightarrow> Inl err
           | Inr result \<Rightarrow> Inr (result\<lparr>Total := int (length (Storyboards result))\<rparr>)))"

subsection \<open>Stored rows\<close>

text \<open>
  The tables \<^verbatim>\<open>saveStoryboards\<close> touches. A storyboard row has the columns the function
  fills from the shot; the three columns it computes with the prompt formatters
  (description, image prompt, video prompt) are left out. Of an image generation only the
  back-reference to a storyboard matters here, of a character only its identifier.
\<close>

record EpisodeRow =
  ep_DramaID :: nat
  ep_Duration :: int

record StoryboardRow =
  row_ID :: nat
  row_EpisodeID :: nat
  row_SceneID :: "nat option"
  row_StoryboardNumber :: int
  row_Title :: "string option"
  row_Location :: "string option"
  row_Time :: "string option"
  row_ShotType :: "string option"
  row_Angle :: "string option"
  row_Movement :: "string option"
  row_Action :: "string option"
  row_Result :: "string option"
  row_Atmosphere :: "string option"
  row_Dialogue :: "string option"
  row_BgmPrompt :: "string option"
  row_SoundEffect :: "string option"
  row_Duration :: int

record store =
  episodes :: "nat \<rightharpoonup> EpisodeRow"
  storyboards :: "StoryboardRow list"
  image_generations :: "(nat \<times> nat option) list"
  characters :: "nat list"
  storyboard_characters :: "(nat \<times> nat) list"
  next_id :: nat

definition ptr_nonempty :: "string \<Rightarrow> string option" where
  "ptr_nonempty s = (if s \<noteq> [] then Some s else None)"

definition row_of_shot :: "nat \<Rightarrow> nat \<Rightarrow> Storyboard \<Rightarrow> StoryboardRow" where
  "row_of_shot epID newID sb =
     \<lparr>row_ID = newID, row_EpisodeID = epID, row_SceneID = SceneID sb,
      row_StoryboardNumber = ShotNumber sb,
      row_Title = ptr_nonempty (Title sb),
      row_Location = Some (Location sb),
      row_Time = Some (Time sb),
      row_ShotType = ptr_nonempty (ShotType sb),
      row_Angle = ptr_nonempty (Angle sb),
      row_Movement = ptr_nonempty (Movement sb),
      row_Action = Some (Action sb),
      row_Result = ptr_nonempty (Result sb),
      row_Atmosphere = ptr_nonempty (Atmosphere sb),
      row_Dialogue = ptr_nonempty (Dialogue sb),
      row_BgmPrompt = ptr_nonempty (BgmPrompt sb),
      row_SoundEffect = ptr_nonempty (SoundEffect sb),
      row_Duration = Duration sb\<rparr>"

subsection \<open>Saving a batch: \<^verbatim>\<open>saveStoryboards\<close>\<close>

text \<open>One turn of the insertion loop: create the row, then associate the shot's
  characters. A failed creation ends the transaction with its error; a failure while
  associating is only logged.\<close>

definition create_storyboard ::
  "nat \<Rightarrow> Storyboard \<Rightarrow> faults \<times> store \<Rightarrow> faults \<times> (string + store)" where
  "create_storyboard epID sb fs =
     (case attempt (fst fs) of
        (Some err, f1) \<Rightarrow> (f1, Inl err)
      | (None, f1) \<Rightarrow>
          (let s = snd fs;
               newID = next_id s;
               s1 = s\<lparr>storyboards := storyboards s @ [row_of_shot epID newID sb],
                      next_id := Suc newID\<rparr>
           in if Characters sb \<noteq> [] then
                (case attempt f1 of
                   (Some err, f2) \<Rightarrow> (f2, Inr s1)
                 | (None, f2) \<Rightarrow>
                     (let found = filter (\<lambda>c. c \<in> set (Characters sb)) (characters s1)
                      in if found \<noteq> [] then
                           (case attempt f2 of
                              (Some err, f3) \<Rightarrow> (f3, Inr s1)
                            | (None, f3) \<Rightarrow>
                                (f3, Inr (s1\<lparr>storyboard_characters :=
                                   storyboard_characters s1 @ map (Pair newID) found\<rparr>)))
                         else (f2, Inr s1)))
              else (f1, Inr s1)))"

fun create_storyboards ::
  "nat \<Rightarrow> Storyboard list \<Rightarrow> faults \<times> store \<Rightarrow> faults \<times> (string + store)" where
  "create_storyboards epID [] fs = (fst fs, Inr (snd fs))"
| "create_storyboards epID (sb # sbs) fs =
     (case create_storyboard epID sb fs of
        (f1, Inl err) \<Rightarrow> (f1, Inl err)
      | (f1, Inr s1) \<Rightarrow> create_storyboards epID sbs (f1, s1))"

text \<open>
  \<^verbatim>\<open>db.Transaction\<close> of the ORM: begin, run the body, commit. When the beginning, the body
  or the commit fails, the error is returned and the store is the one before.
\<close>

definition Transaction ::
  "(faults \<times> 's \<Rightarrow> faults \<times> (string + 's)) \<Rightarrow> faults \<times> 's \<Rightarrow> string option \<times> faults \<times> 's" where
  "Transaction body fs =
     (case attempt (fst fs) of
        (Some err, f0) \<Rightarrow> (Some err, f0, snd fs)
      | (None, f0) \<Rightarrow>
          (case body (f0, snd fs) of
             (f1, Inl err) \<Rightarrow> (Some err, f1, snd fs)
           | (f1, Inr s1) \<Rightarrow>
               (case attempt f1 of
                  (Some err, f2) \<Rightarrow> (Some err, f2, snd fs)
                | (None, f2) \<Rightarrow> (None, f2, s1))))"

text \<open>The statements of the transaction once the episode is found: collect the
  identifiers of its storyboards, detach the image generations that refer to them, delete
  the storyboards, insert the new ones.\<close>

definition replace_storyboards ::
  "nat \<Rightarrow> Storyboard list \<Rightarrow> faults \<times> store \<Rightarrow> faults \<times> (string + store)" where
  "replace_storyboards epID sbs fs =
     (let f = fst fs; s = snd fs in
      case attempt f of
        (Some err, f1) \<Rightarrow> (f1, Inl err)
      | (None, f1) \<Rightarrow>
          (let storyboardIDs = map row_ID (filter (\<lambda>r. row_EpisodeID r = epID) (storyboards s));
               detached =
                 (if storyboardIDs \<noteq> [] then
                    (case attempt f1 of
                       (Some err, f2) \<Rightarrow> (f2, Inl err)
                     | (None, f2) \<Rightarrow>
                         (f2, Inr (s\<lparr>image_generations :=
                            map (\<lambda>(i, ref). (i, if ref \<in> Some ` set storyboardIDs then None else ref))
                              (image_generations s)\<rparr>)))
                  else (f1, Inr s))
           in case detached of
                (f2, Inl err) \<Rightarrow> (f2, Inl err)
              | (f2, Inr s2) \<Rightarrow>
                  (case attempt f2 of
                     (Some err, f3) \<Rightarrow> (f3, Inl err)
                   | (None, f3) \<Rightarrow>
                       create_storyboards epID sbs
                         (f3, s2\<lparr>storyboards :=
                            filter (\<lambda>r. row_EpisodeID r \<noteq> epID) (storyboards s2)\<rparr>))))"

text \<open>The body of the transaction: the episode is looked up first, and any error of the
  lookup, a missing row as well as a failed statement, ends the transaction with the
  message that the episode does not exist.\<close>

definition save_transaction ::
  "nat \<Rightarrow> string \<Rightarrow> Storyboard list \<Rightarrow> faults \<times> store \<Rightarrow> faults \<times> (string + store)" where
  "save_transaction epID episodeID sbs fs =
     (case attempt (fst fs) of
        (Some err, f0) \<Rightarrow> (f0, Inl (msg_episode_missing @ episodeID))
      | (None, f0) \<Rightarrow>
          (case episodes (snd fs) epID of
             None \<Rightarrow> (f0, Inl (msg_episode_missing @ episodeID))
           | Some episode \<Rightarrow> replace_storyboards epID sbs (f0, snd fs)))"

text \<open>The function itself: the identifier must parse and the batch must not be empty
  before the transaction is begun.\<close>

definition saveStoryboards ::
  "string \<Rightarrow> Storyboard list \<Rightarrow> faults \<times> store \<Rightarrow> string option \<times> faults \<times> store" where
  "saveStoryboards episodeID sbs fs =
     (case ParseUint32 episodeID of
        None \<Rightarrow> (Some (msg_invalid_episode_id @ episodeID), fs)
      | Some epID \<Rightarrow>
          if length sbs = 0 then (Some msg_no_storyboards, fs)
          else Transaction (save_transaction epID episodeID sbs) fs)"

subsection \<open>The background job: \<^verbatim>\<open>processStoryboardGeneration\<close>\<close>

text \<open>The payload of a completed task (the \<^verbatim>\<open>gin.H\<close> the job stores).\<close>

record storyboard_payload =
  payload_storyboards :: "Storyboard list"
  payload_total :: int
  payload_total_duration :: int
  payload_duration_minutes :: int

record storyboard_world =
  registry :: "storyboard_payload registry"
  db_faults :: faults
  db :: store

text \<open>The total of the shots' durations, added up in the order of the shots.\<close>

definition total_duration :: "Storyboard list \<Rightarrow> int" where
  "total_duration sbs = foldl add64 0 (map Duration sbs)"

text \<open>The update of the episode's duration; its failure is logged and the job goes on.\<close>

definition update_episode_duration ::
  "string \<Rightarrow> int \<Rightarrow> faults \<times> store \<Rightarrow> faults \<times> store" where
  "update_episode_duration episodeID minutes fs =
     (case attempt (fst fs) of
        (Some err, f1) \<Rightarrow> (f1, snd fs)
      | (None, f1) \<Rightarrow>
          (case ParseUint32 episodeID of
             None \<Rightarrow> (f1, snd fs)
           | Some epID \<Rightarrow>
               (case episodes (snd fs) epID of
                  None \<Rightarrow> (f1, snd fs)
                | Some episode \<Rightarrow>
                    (f1, (snd fs)\<lparr>episodes :=
                       (episodes (snd fs))(epID \<mapsto> episode\<lparr>ep_Duration := minutes\<rparr>)\<rparr>))))"

definition processStoryboardGeneration ::
  "text_ai \<Rightarrow> (string \<Rightarrow> json option)
     \<Rightarrow> string \<Rightarrow> string \<Rightarrow> string \<Rightarrow> storyboard_world \<Rightarrow> storyboard_world" where
  "processStoryboardGeneration ai decode episodeID model prompt w =
     (case UpdateTaskStatus Processing 10 msg_storyboard_started (registry w) of
        (Some err, r1) \<Rightarrow> w\<lparr>registry := r1\<rparr>
      | (None, r1) \<Rightarrow>
     (case generate_with ai model 0 prompt [] of
        Inl err \<Rightarrow>
          w\<lparr>registry := snd (UpdateTaskError (msg_generation_failed @ err) r1)\<rparr>
      | Inr text \<Rightarrow>
     (case UpdateTaskStatus Processing 50 msg_parsing r1 of
        (Some err, r2) \<Rightarrow> w\<lparr>registry := r2\<rparr>
      | (None, r2) \<Rightarrow>
     (case parse_storyboards decode text of
        Inl err \<Rightarrow>
          w\<lparr>registry := snd (UpdateTaskError (msg_parse_failed @ Error err) r2)\<rparr>
      | Inr result \<Rightarrow>
     (let totalDuration = total_duration (Storyboards result) in
      case UpdateTaskStatus Processing 70 msg_saving r2 of
        (Some err, r3) \<Rightarrow> w\<lparr>registry := r3\<rparr>
      | (None, r3) \<Rightarrow>
     (case saveStoryboards episodeID (Storyboards result) (db_faults w, db w) of
        (Some err, f1, s1) \<Rightarrow>
          w\<lparr>registry := snd (UpdateTaskError (msg_save_failed @ err) r3),
            db_faults := f1, db := s1\<rparr>
      | (None, f1, s1) \<Rightarrow>
     (case UpdateTaskStatus Processing 90 msg_updating_duration r3 of
        (Some err, r4) \<Rightarrow> w\<lparr>registry := r4, db_faults := f1, db := s1\<rparr>
      | (None, r4) \<Rightarrow>
     (let durationMinutes = quo (add64 totalDuration 59) 60;
          fs2 = update_episode_duration episodeID durationMinutes (f1, s1);
          resultData = \<lparr>payload_storyboards = Storyboards result,
                        payload_total = Total result,
                        payload_total_duration = totalDuration,
                        payload_duration_minutes = durationMinutes\<rparr>
      in w\<lparr>registry := snd (UpdateTaskResult resultData r4),
           db_faults := fst fs2, db := snd fs2\<rparr>))))))))"

subsection \<open>The transaction leaves the episodes alone\<close>

lemma create_storyboard_frame:
  "create_storyboard epID sb (f, s) = (f', r) \<Longrightarrow>
     fail_at f' = fail_at f \<and> (case r of Inl _ \<Rightarrow> True | Inr s' \<Rightarrow> episodes s' = episodes s)"
proof -
  assume c: "create_storyboard epID sb (f, s) = (f', r)"
  obtain e1 f1 where a1: "attempt f = (e1, f1)" by force
  obtain e2 f2 where a2: "attempt f1 = (e2, f2)" by force
  obtain e3 f3 where a3: "attempt f2 = (e3, f3)" by force
  have fa: "fail_at f1 = fail_at f" "fail_at f2 = fail_at f" "fail_at f3 = fail_at f"
    using attempt_fail_at [OF a1] attempt_fail_at [OF a2] attempt_fail_at [OF a3] by simp_all
  show ?thesis
    using c fa
    by (simp add: create_storyboard_def a1 a2 a3 Let_def split: option.splits if_splits)
       (auto split: sum.splits)
qed

lemma create_storyboards_frame:
  "create_storyboards epID sbs (f, s) = (f', r) \<Longrightarrow>
     fail_at f' = fail_at f \<and> (case r of Inl _ \<Rightarrow> True | Inr s' \<Rightarrow> episodes s' = episodes s)"
proof (induction sbs arbitrary: f s)
  case Nil
  then show ?case by auto
next
  case (Cons sb sbs)
  obtain f1 r1 where c: "create_storyboard epID sb (f, s) = (f1, r1)" by force
  note fr = create_storyboard_frame [OF c]
  show ?case
  proof (cases r1)
    case (Inl err)
    with Cons.prems c fr show ?thesis by auto
  next
    case (Inr s1)
    with Cons.prems c have "create_storyboards epID sbs (f1, s1) = (f', r)" by simp
    from Cons.IH [OF this] fr Inr show ?thesis by (auto split: sum.splits)
  qed
qed

lemma replace_storyboards_frame:
  assumes t: "replace_storyboards epID sbs (f, s) = (f', r)"
  shows "fail_at f' = fail_at f
     \<and> (case r of Inl _ \<Rightarrow> True | Inr s' \<Rightarrow> episodes s' = episodes s)"
proof -
  obtain e1 f1 where a1: "attempt f = (e1, f1)" by force
  obtain e2 f2 where a2: "attempt f1 = (e2, f2)" by force
  obtain e3 f3 where a3: "attempt f2 = (e3, f3)" by force
  have fa: "fail_at f1 = fail_at f" "fail_at f2 = fail_at f" "fail_at f3 = fail_at f"
    using attempt_fail_at [OF a1] attempt_fail_at [OF a2] attempt_fail_at [OF a3] by simp_all
  show ?thesis
  proof (cases e1)
    case (Some err)
    with t a1 fa show ?thesis
      by (auto simp: replace_storyboards_def)
  next
    case None
    note e1 = this
    let ?ids = "map row_ID (filter (\<lambda>r. row_EpisodeID r = epID) (storyboards s))"
    show ?thesis
    proof (cases "?ids = []")
      case True
      show ?thesis
      proof (cases e2)
        case (Some err)
        with t a1 a2 e1 fa True show ?thesis
          by (auto simp: replace_storyboards_def Let_def)
      next
        case None
        with t a1 a2 e1 True
        have "create_storyboards epID sbs
               (f2, s\<lparr>storyboards := filter (\<lambda>r. row_EpisodeID r \<noteq> epID) (storyboards s)\<rparr>)
              = (f', r)"
          by (simp add: replace_storyboards_def Let_def)
        from create_storyboards_frame [OF this] fa
        show ?thesis by (auto split: sum.splits)
      qed
    next
      case False
      show ?thesis
      proof (cases e2)
        case (Some err)
        with t a1 a2 e1 fa False show ?thesis
          by (auto simp: replace_storyboards_def Let_def)
      next
        case None
        note e2 = this
        show ?thesis
        proof (cases e3)
          case (Some err)
          with t a1 a2 a3 e1 e2 fa False show ?thesis
            by (auto simp: replace_storyboards_def Let_def)
        next
          case None
          let ?s2 = "s\<lparr>image_generations :=
                 map (\<lambda>(i, ref). (i, if ref \<in> Some ` set ?ids then None else ref))
                   (image_generations s)\<rparr>"
          from None t a1 a2 a3 e1 e2 False
          have "create_storyboards epID sbs
                 (f3, ?s2\<lparr>storyboards := filter (\<lambda>r. row_EpisodeID r \<noteq> epID) (storyboards ?s2)\<rparr>)
                = (f', r)"
            by (simp add: replace_storyboards_def Let_def)
          from create_storyboards_frame [OF this] fa
          show ?thesis by (auto split: sum.splits)
        qed
      qed
    qed
  qed
qed

lemma save_transaction_frame:
  assumes t: "save_transaction epID episodeID sbs (f, s) = (f', r)"
  shows "fail_at f' = fail_at f
     \<and> (case r of Inl _ \<Rightarrow> True
                | Inr s' \<Rightarrow> episodes s' = episodes s \<and> episodes s epID \<noteq> None)"
proof -
  obtain e0 f0 where a0: "attempt f = (e0, f0)" by force
  note fa = attempt_fail_at [OF a0]
  show ?thesis
  proof (cases e0)
    case (Some err)
    with t a0 fa show ?thesis by (auto simp: save_transaction_def)
  next
    case None
    note e0 = this
    show ?thesis
    proof (cases "episodes s epID")
      case None
      with t a0 e0 fa show ?thesis by (auto simp: save_transaction_def)
    next
      case (Some episode)
      with t a0 e0 have "replace_storyboards epID sbs (f0, s) = (f', r)"
        by (simp add: save_transaction_def)
      from replace_storyboards_frame [OF this] fa Some show ?thesis
        by (auto split: sum.splits)
    qed
  qed
qed

lemma Transaction_ok:
  assumes "Transaction body (f, s) = (None, f', s')"
  shows "\<exists>f0 f1. attempt f = (None, f0) \<and> body (f0, s) = (f1, Inr s')
                \<and> attempt f1 = (None, f')"
proof -
  obtain e0 f0 where a0: "attempt f = (e0, f0)" by force
  obtain f1 r where b: "body (f0, s) = (f1, r)" by force
  obtain e2 f2 where a2: "attempt f1 = (e2, f2)" by force
  from assms a0 have e0: "e0 = None"
    by (cases e0) (simp_all add: Transaction_def)
  with assms a0 b have "\<exists>s1. r = Inr s1"
    by (cases r) (simp_all add: Transaction_def)
  then obtain s1 where r: "r = Inr s1" by blast
  with assms a0 e0 b a2 have "e2 = None"
    by (cases e2) (simp_all add: Transaction_def)
  with assms a0 e0 b r a2 show ?thesis
    by (simp add: Transaction_def)
qed

lemma Transaction_failed:
  assumes "Transaction body (f, s) = (Some err, f', s')"
  shows "s' = s"
proof -
  obtain e0 f0 where a0: "attempt f = (e0, f0)" by force
  obtain f1 r where b: "body (f0, s) = (f1, r)" by force
  obtain e2 f2 where a2: "attempt f1 = (e2, f2)" by force
  from assms a0 b a2 show ?thesis
    by (cases e0; cases r; cases e2) (simp_all add: Transaction_def)
qed

lemma saveStoryboards_ok:
  assumes "saveStoryboards episodeID sbs (f, s) = (None, f', s')"
  shows "fail_at f' = fail_at f \<and> episodes s' = episodes s \<and> sbs \<noteq> []
     \<and> (\<exists>epID. ParseUint32 episodeID = Some epID \<and> episodes s epID \<noteq> None)"
proof (cases "ParseUint32 episodeID")
  case None
  with assms show ?thesis by (simp add: saveStoryboards_def)
next
  case (Some epID)
  show ?thesis
  proof (cases "sbs = []")
    case True
    with assms Some show ?thesis by (simp add: saveStoryboards_def)
  next
    case False
    with assms Some
    have "Transaction (save_transaction epID episodeID sbs) (f, s) = (None, f', s')"
      by (simp add: saveStoryboards_def)
    from Transaction_ok [OF this] obtain f0 f1 where
      a0: "attempt f = (None, f0)"
      and t: "save_transaction epID episodeID sbs (f0, s) = (f1, Inr s')"
      and a2: "attempt f1 = (None, f')"
      by blast
    from save_transaction_frame [OF t] attempt_fail_at [OF a0] attempt_fail_at [OF a2]
      Some False
    show ?thesis by auto
  qed
qed

lemma saveStoryboards_failed:
  assumes "saveStoryboards episodeID sbs (f, s) = (Some err, f', s')"
  shows "s' = s"
proof (cases "ParseUint32 episodeID")
  case None
  with assms show ?thesis by (simp add: saveStoryboards_def)
next
  case (Some epID)
  show ?thesis
  proof (cases "sbs = []")
    case True
    with assms Some show ?thesis by (simp add: saveStoryboards_def)
  next
    case False
    with assms Some
    have "Transaction (save_transaction epID episodeID sbs) (f, s) = (Some err, f', s')"
      by (simp add: saveStoryboards_def)
    from Transaction_failed [OF this] show ?thesis .
  qed
qed

subsection \<open>The path of a job that completes\<close>

lemma completed_run:
  assumes pending: "task_status (reg_task (registry w)) = Pending"
    and completed: "task_status (reg_task (registry
           (processStoryboardGeneration ai decode episodeID model prompt w))) = Completed"
  obtains answer result f1 s1 where
      "generate_with ai model 0 prompt [] = Inr answer"
    and "parse_storyboards decode answer = Inr result"
    and "saveStoryboards episodeID (Storyboards result) (db_faults w, db w) = (None, f1, s1)"
    and "db (processStoryboardGeneration ai decode episodeID model prompt w) =
             snd (update_episode_duration episodeID
                    (quo (add64 (total_duration (Storyboards result)) 59) 60) (f1, s1))"
    and "db_faults (processStoryboardGeneration ai decode episodeID model prompt w) =
             fst (update_episode_duration episodeID
                    (quo (add64 (total_duration (Storyboards result)) 59) 60) (f1, s1))"
    and "task_result (reg_task (registry
              (processStoryboardGeneration ai decode episodeID model prompt w))) =
             Some \<lparr>payload_storyboards = Storyboards result,
                   payload_total = Total result,
                   payload_total_duration = total_duration (Storyboards result),
                   payload_duration_minutes =
                     quo (add64 (total_duration (Storyboards result)) 59) 60\<rparr>"
proof -
  let ?run = "processStoryboardGeneration ai decode episodeID model prompt w"
  note run_def = processStoryboardGeneration_def
  obtain e1 r1 where u1:
    "UpdateTaskStatus Processing 10 msg_storyboard_started (registry w) = (e1, r1)" by force
  have e1: "e1 = None"
  proof (cases e1)
    case (Some err)
    with u1 UpdateTaskStatus_cases [OF u1] pending completed show ?thesis
      by (simp add: run_def)
  qed simp
  with UpdateTaskStatus_cases [OF u1] have s1: "task_status (reg_task r1) = Processing" by simp
  obtain answer where gen: "generate_with ai model 0 prompt [] = Inr answer"
  proof (cases "generate_with ai model 0 prompt []")
    case (Inl err)
    with u1 e1 s1 completed UpdateTaskError_status [of "msg_generation_failed @ err" r1]
    show ?thesis by (auto simp: run_def)
  qed simp
  obtain e2 r2 where u2: "UpdateTaskStatus Processing 50 msg_parsing r1 = (e2, r2)" by force
  have e2: "e2 = None"
  proof (cases e2)
    case (Some err)
    with u1 e1 gen u2 UpdateTaskStatus_cases [OF u2] s1 completed show ?thesis
      by (simp add: run_def)
  qed simp
  with UpdateTaskStatus_cases [OF u2] have s2: "task_status (reg_task r2) = Processing" by simp
  obtain result where parse: "parse_storyboards decode answer = Inr result"
  proof (cases "parse_storyboards decode answer")
    case (Inl err)
    with u1 e1 gen u2 e2 s2 completed UpdateTaskError_status [of "msg_parse_failed @ Error err" r2]
    show ?thesis by (auto simp: run_def)
  qed simp
  obtain e3 r3 where u3: "UpdateTaskStatus Processing 70 msg_saving r2 = (e3, r3)" by force
  have e3: "e3 = None"
  proof (cases e3)
    case (Some err)
    with u1 e1 gen u2 e2 parse u3 UpdateTaskStatus_cases [OF u3] s2 completed show ?thesis
      by (simp add: run_def Let_def)
  qed simp
  with UpdateTaskStatus_cases [OF u3] have s3: "task_status (reg_task r3) = Processing" by simp
  obtain se f1 s1 where save:
    "saveStoryboards episodeID (Storyboards result) (db_faults w, db w) = (se, f1, s1)"
    by (metis prod_cases3)
  have se: "se = None"
  proof (cases se)
    case (Some err)
    with u1 e1 gen u2 e2 parse u3 e3 save s3 completed
      UpdateTaskError_status [of "msg_save_failed @ err" r3]
    show ?thesis by (auto simp: run_def Let_def)
  qed simp
  obtain e4 r4 where u4: "UpdateTaskStatus Processing 90 msg_updating_duration r3 = (e4, r4)"
    by force
  have e4: "e4 = None"
  proof (cases e4)
    case (Some err)
    with u1 e1 gen u2 e2 parse u3 e3 save se u4 UpdateTaskStatus_cases [OF u4] s3 completed
    show ?thesis by (simp add: run_def Let_def)
  qed simp
  with UpdateTaskStatus_cases [OF u4] have s4: "task_status (reg_task r4) = Processing" by simp
  let ?minutes = "quo (add64 (total_duration (Storyboards result)) 59) 60"
  let ?payload = "\<lparr>payload_storyboards = Storyboards result,
                   payload_total = Total result,
                   payload_total_duration = total_duration (Storyboards result),
                   payload_duration_minutes = ?minutes\<rparr>"
  have final: "?run = w\<lparr>registry := snd (UpdateTaskResult ?payload r4),
                 db_faults := fst (update_episode_duration episodeID ?minutes (f1, s1)),
                 db := snd (update_episode_duration episodeID ?minutes (f1, s1))\<rparr>"
    using u1 e1 gen u2 e2 parse u3 e3 save se u4 e4 by (simp add: run_def Let_def)
  with completed s4 UpdateTaskResult_status [of ?payload r4]
  have res: "task_result (reg_task (registry ?run)) = Some ?payload" by auto
  from save se
  have save': "saveStoryboards episodeID (Storyboards result) (db_faults w, db w) = (None, f1, s1)"
    by simp
  from final have store: "db ?run = snd (update_episode_duration episodeID ?minutes (f1, s1))"
    and faults: "db_faults ?run = fst (update_episode_duration episodeID ?minutes (f1, s1))"
    by simp_all
  show ?thesis by (rule that [OF gen parse save' store faults res])
qed

lemma successful_run:
  assumes "reliable (reg_faults (registry w))"
    and "task_status (reg_task (registry w)) = Pending"
    and "generate_with ai model 0 prompt [] = Inr answer"
    and "parse_storyboards decode answer = Inr result"
    and "fst (saveStoryboards episodeID (Storyboards result) (db_faults w, db w)) = None"
  shows "task_status (reg_task (registry
           (processStoryboardGeneration ai decode episodeID model prompt w))) = Completed"
proof -
  obtain f1 s1 where
    "saveStoryboards episodeID (Storyboards result) (db_faults w, db w) = (None, f1, s1)"
    using assms(5) by (cases "saveStoryboards episodeID (Storyboards result) (db_faults w, db w)") auto
  with assms(1-4) show ?thesis
    by (simp add: processStoryboardGeneration_def UpdateTaskStatus_def
          UpdateTaskResult_def registry_write_reliable terminal_def Let_def)
qed

lemma update_episode_duration_ok:
  assumes "fail_at f (issued f) = None" and "ParseUint32 episodeID = Some epID"
    and "episodes s epID = Some episode"
  shows "episodes (snd (update_episode_duration episodeID minutes (f, s))) epID =
           Some (episode\<lparr>ep_Duration := minutes\<rparr>)"
  using assms by (simp add: update_episode_duration_def attempt_def)

lemma update_episode_duration_failed:
  assumes "fail_at f (issued f) = Some err"
  shows "snd (update_episode_duration episodeID minutes (f, s)) = s"
  using assms by (simp add: update_episode_duration_def attempt_def)

lemma update_episode_duration_faults:
  "issued (fst (update_episode_duration episodeID minutes (f, s))) = Suc (issued f)
   \<and> fail_at (fst (update_episode_duration episodeID minutes (f, s))) = fail_at f"
  by (simp add: update_episode_duration_def attempt_def split: option.splits)

text \<open>In a job that completes, the update of the duration is the last statement sent to
  the database: whether it failed is read off the schedule at the last issued number.\<close>

lemma update_is_last_statement:
  assumes "saveStoryboards episodeID sbs (f, s) = (None, f1, s1)"
    and "faults' = fst (update_episode_duration episodeID minutes (f1, s1))"
  shows "fail_at f1 (issued f1) = fail_at f (issued faults' - 1)"
  using saveStoryboards_ok [OF assms(1)] assms(2)
    update_episode_duration_faults [of episodeID minutes f1 s1]
  by simp

subsection \<open>A run of the job\<close>

text \<open>An answer with two shots of 9 and 7 seconds, in the array shape and in the object
  shape, and an episode that has one storyboard with an image generation referring to it.\<close>

definition two_shots_array :: string where
  "two_shots_array = ''[{'' @ [CHR 0x22] @ ''shot_number'' @ [CHR 0x22] @ '':1,'' @ [CHR 0x22] @ ''duration'' @ [CHR 0x22] @ '':9},{'' @ [CHR 0x22] @ ''shot_number'' @ [CHR 0x22] @ '':2,'' @ [CHR 0x22] @ ''duration'' @ [CHR 0x22] @ '':7}]''"

definition two_shots_object :: string where
  "two_shots_object =
     ''{'' @ [CHR 0x22] @ ''storyboards'' @ [CHR 0x22] @ '':[{'' @ [CHR 0x22] @ ''shot_number'' @ [CHR 0x22] @ '':1,'' @ [CHR 0x22] @ ''duration'' @ [CHR 0x22] @ '':9},{'' @ [CHR 0x22] @ ''shot_number'' @ [CHR 0x22] @ '':2,'' @ [CHR 0x22] @ ''duration'' @ [CHR 0x22] @ '':7}]}''"

definition two_shots :: "Storyboard list" where
  "two_shots = [zero_Storyboard\<lparr>ShotNumber := 1, Duration := 9\<rparr>,
                zero_Storyboard\<lparr>ShotNumber := 2, Duration := 7\<rparr>]"

definition answering :: "string \<Rightarrow> text_ai" where
  "answering text =
     \<lparr>GetAIClientForModel = (\<lambda>kind model. Some ''model not found''),
      ClientGenerateText = (\<lambda>model n prompt systemPrompt. Inl ''no client''),
      GenerateText = (\<lambda>n prompt systemPrompt. Inr text)\<rparr>"

definition demo_store :: store where
  "demo_store =
     \<lparr>episodes = [1 \<mapsto> \<lparr>ep_DramaID = 1, ep_Duration = 0\<rparr>],
      storyboards = [row_of_shot 1 5 (zero_Storyboard\<lparr>ShotNumber := 1, Duration := 4\<rparr>)],
      image_generations = [(1, Some 5)],
      characters = [159, 160],
      storyboard_characters = [],
      next_id = 6\<rparr>"

definition demo_world :: "faults \<Rightarrow> faults \<Rightarrow> storyboard_world" where
  "demo_world registry_faults database_faults =
     \<lparr>registry = \<lparr>reg_task = new_task, reg_faults = registry_faults\<rparr>,
      db_faults = database_faults, db = demo_store\<rparr>"

text \<open>A schedule with one failure, at the statement numbered \<open>k\<close>.\<close>

definition failing_at :: "nat \<Rightarrow> string \<Rightarrow> faults" where
  "failing_at k msg = \<lparr>fail_at = (\<lambda>n. if n = k then Some msg else None), issued = 0\<rparr>"

text \<open>An answer with a single shot whose duration is the largest \<^verbatim>\<open>int\<close>.\<close>

definition long_shot_array :: string where
  "long_shot_array = ''[{'' @ [CHR 0x22] @ ''shot_number'' @ [CHR 0x22] @ '':1,'' @ [CHR 0x22] @ ''duration'' @ [CHR 0x22] @ '':9223372036854775807}]''"

definition long_shot :: "Storyboard list" where
  "long_shot = [zero_Storyboard\<lparr>ShotNumber := 1, Duration := 9223372036854775807\<rparr>]"

text \<open>Four runs of the job on the episode \<^verbatim>\<open>"1"\<close>, with no model named: the two shots
  with every write succeeding; the long shot; the two shots with the ninth database
  statement (the update of the duration) failing; the two shots with the second write to
  the registry (the progress report after the generation) failing.\<close>

definition run_two_shots :: storyboard_world where
  "run_two_shots =
     processStoryboardGeneration (answering two_shots_array) json_read ''1'' [] ''prompt''
       (demo_world no_faults no_faults)"

definition run_long_shot :: storyboard_world where
  "run_long_shot =
     processStoryboardGeneration (answering long_shot_array) json_read ''1'' [] ''prompt''
       (demo_world no_faults no_faults)"

definition run_duration_write_fails :: storyboard_world where
  "run_duration_write_fails =
     processStoryboardGeneration (answering two_shots_array) json_read ''1'' [] ''prompt''
       (demo_world no_faults (failing_at 8 ''database is locked''))"

definition run_progress_write_fails :: storyboard_world where
  "run_progress_write_fails =
     processStoryboardGeneration (answering two_shots_array) json_read ''1'' [] ''prompt''
       (demo_world (failing_at 1 ''database is locked'') no_faults)"

text \<open>The two shots with a character in the first one, and their run with the seventh
  database statement failing: the lookup of the first shot's characters, whose failure is
  only logged.\<close>

definition cast_shots_array :: string where
  "cast_shots_array =
     ''[{'' @ [CHR 0x22] @ ''shot_number'' @ [CHR 0x22] @ '':1,'' @ [CHR 0x22] @ ''duration'' @ [CHR 0x22] @ '':9,'' @ [CHR 0x22] @ ''characters'' @ [CHR 0x22] @ '':[159]},{'' @ [CHR 0x22] @ ''shot_number'' @ [CHR 0x22] @ '':2,'' @ [CHR 0x22] @ ''duration'' @ [CHR 0x22] @ '':7}]''"

definition cast_shots :: "Storyboard list" where
  "cast_shots = [zero_Storyboard\<lparr>ShotNumber := 1, Duration := 9, Characters := [159]\<rparr>,
                 zero_Storyboard\<lparr>ShotNumber := 2, Duration := 7\<rparr>]"

definition run_character_lookup_fails :: storyboard_world where
  "run_character_lookup_fails =
     processStoryboardGeneration (answering cast_shots_array) json_read ''1'' [] ''prompt''
       (demo_world no_faults (failing_at 6 ''database is locked''))"

lemma parse_two_shots_array:
  "parse_storyboards json_read two_shots_array = Inr \<lparr>Storyboards = two_shots, Total = 2\<rparr>"
  by code_simp

lemma parse_long_shot:
  "parse_storyboards json_read long_shot_array = Inr \<lparr>Storyboards = long_shot, Total = 1\<rparr>"
  by code_simp

lemma save_two_shots:
  "fst (saveStoryboards ''1'' two_shots (no_faults, demo_store)) = None"
  by code_simp

lemma save_long_shot:
  "fst (saveStoryboards ''1'' long_shot (no_faults, demo_store)) = None"
  by code_simp

lemma save_two_shots_failing:
  "fst (saveStoryboards ''1'' two_shots (failing_at 8 ''database is locked'', demo_store)) = None
   \<and> issued (fst (snd (saveStoryboards ''1'' two_shots (failing_at 8 ''database is locked'', demo_store)))) = 8"
  by code_simp

lemma generate_answering: "generate_with (answering a) [] n p s = Inr a"
  by (simp add: generate_with_def answering_def)

lemma parse_cast_shots:
  "parse_storyboards json_read cast_shots_array = Inr \<lparr>Storyboards = cast_shots, Total = 2\<rparr>"
  by code_simp

lemma save_cast_shots:
  "fst (saveStoryboards ''1'' cast_shots (failing_at 6 ''database is locked'', demo_store)) = None"
  by code_simp

lemma save_cast_shots_issued:
  "issued (fst (snd (saveStoryboards ''1'' cast_shots
     (failing_at 6 ''database is locked'', demo_store)))) = 9"
  by code_simp

lemma completed_payload:
  assumes "task_status (reg_task (registry w)) = Pending"
    and "task_status (reg_task (registry
           (processStoryboardGeneration ai decode episodeID model prompt w))) = Completed"
    and "generate_with ai model 0 prompt [] = Inr answer"
    and "parse_storyboards decode answer = Inr result"
  shows "task_result (reg_task (registry
              (processStoryboardGeneration ai decode episodeID model prompt w))) =
             Some \<lparr>payload_storyboards = Storyboards result,
                   payload_total = Total result,
                   payload_total_duration = total_duration (Storyboards result),
                   payload_duration_minutes =
                     quo (add64 (total_duration (Storyboards result)) 59) 60\<rparr>"
proof (rule completed_run [OF assms(1,2)])
  fix answer' result' f1 s1
  assume "generate_with ai model 0 prompt [] = Inr answer'"
    and "parse_storyboards decode answer' = Inr result'"
    and "task_result (reg_task (registry
              (processStoryboardGeneration ai decode episodeID model prompt w))) =
             Some \<lparr>payload_storyboards = Storyboards result',
                   payload_total = Total result',
                   payload_total_duration = total_duration (Storyboards result'),
                   payload_duration_minutes =
                     quo (add64 (total_duration (Storyboards result')) 59) 60\<rparr>"
  with assms(3,4) show ?thesis by simp
qed

lemma stored_duration:
  assumes pending: "task_status (reg_task (registry w)) = Pending"
    and completed: "task_status (reg_task (registry
           (processStoryboardGeneration ai decode episodeID model prompt w))) = Completed"
    and payload: "task_result (reg_task (registry
           (processStoryboardGeneration ai decode episodeID model prompt w))) = Some p"
    and updated: "fail_at (db_faults w)
           (issued (db_faults (processStoryboardGeneration ai decode episodeID model prompt w)) - 1)
           = None"
  shows "\<exists>epID episode.
           ParseUint32 episodeID = Some epID \<and> episodes (db w) epID = Some episode
         \<and> episodes (db (processStoryboardGeneration ai decode episodeID model prompt w)) epID
             = Some (episode\<lparr>ep_Duration := payload_duration_minutes p\<rparr>)"
proof (rule completed_run [OF pending completed])
  let ?run = "processStoryboardGeneration ai decode episodeID model prompt w"
  fix answer result f1 s1
  assume save: "saveStoryboards episodeID (Storyboards result) (db_faults w, db w) = (None, f1, s1)"
    and store: "db ?run = snd (update_episode_duration episodeID
                    (quo (add64 (total_duration (Storyboards result)) 59) 60) (f1, s1))"
    and faults: "db_faults ?run = fst (update_episode_duration episodeID
                    (quo (add64 (total_duration (Storyboards result)) 59) 60) (f1, s1))"
    and res: "task_result (reg_task (registry ?run)) =
             Some \<lparr>payload_storyboards = Storyboards result,
                   payload_total = Total result,
                   payload_total_duration = total_duration (Storyboards result),
                   payload_duration_minutes =
                     quo (add64 (total_duration (Storyboards result)) 59) 60\<rparr>"
  from res payload have minutes: "payload_duration_minutes p =
                    quo (add64 (total_duration (Storyboards result)) 59) 60"
    by auto
  from saveStoryboards_ok [OF save] obtain epID where
    eps: "episodes s1 = episodes (db w)"
    and parse: "ParseUint32 episodeID = Some epID" and ex: "episodes (db w) epID \<noteq> None"
    by blast
  from ex obtain episode where ep: "episodes (db w) epID = Some episode" by auto
  have ok: "fail_at f1 (issued f1) = None"
    using update_is_last_statement [OF save faults] updated by simp
  have "episodes (db ?run) epID = Some (episode\<lparr>ep_Duration := payload_duration_minutes p\<rparr>)"
    using update_episode_duration_ok [OF ok parse, of s1 episode] ep eps store minutes
    by simp
  with parse ep show ?thesis by blast
qed

lemma demo_pending: "task_status (reg_task (registry (demo_world rf df))) = Pending"
  by (simp add: demo_world_def new_task_def)

lemma reliable_no_faults: "reliable no_faults"
  by (simp add: reliable_def no_faults_def)

lemma ParseUint32_1: "ParseUint32 ''1'' = Some 1"
  by code_simp

lemma demo_episode: "episodes (db (demo_world rf df)) 1 = Some \<lparr>ep_DramaID = 1, ep_Duration = 0\<rparr>"
  by (simp add: demo_world_def demo_store_def)

lemma run_two_shots_completed:
  "task_status (reg_task (registry run_two_shots)) = Completed"
  unfolding run_two_shots_def
  by (rule successful_run [OF _ demo_pending generate_answering parse_two_shots_array])
     (simp_all add: demo_world_def reliable_no_faults save_two_shots)

lemma run_two_shots_payload:
  "task_result (reg_task (registry run_two_shots)) =
     Some \<lparr>payload_storyboards = two_shots, payload_total = 2,
           payload_total_duration = 16, payload_duration_minutes = 1\<rparr>"
proof -
  have "total_duration two_shots = 16"
    by (simp add: total_duration_def two_shots_def add64_def wrap64_def)
  moreover have "quo (add64 16 59) 60 = 1"
    by (simp add: quo_def add64_def wrap64_def)
  ultimately show ?thesis
    using completed_payload [OF demo_pending run_two_shots_completed [unfolded run_two_shots_def]
        generate_answering parse_two_shots_array]
    by (simp add: run_two_shots_def)
qed

lemma run_long_shot_completed:
  "task_status (reg_task (registry run_long_shot)) = Completed"
  unfolding run_long_shot_def
  by (rule successful_run [OF _ demo_pending generate_answering parse_long_shot])
     (simp_all add: demo_world_def reliable_no_faults save_long_shot)

lemma run_long_shot_payload:
  "task_result (reg_task (registry run_long_shot)) =
     Some \<lparr>payload_storyboards = long_shot, payload_total = 1,
           payload_total_duration = 9223372036854775807,
           payload_duration_minutes = - 153722867280912929\<rparr>"
proof -
  have "total_duration long_shot = 9223372036854775807"
    by (simp add: total_duration_def long_shot_def add64_def wrap64_def)
  moreover have "quo (add64 9223372036854775807 59) 60 = - 153722867280912929"
    by (simp add: quo_def add64_def wrap64_def)
  ultimately show ?thesis
    using completed_payload [OF demo_pending run_long_shot_completed [unfolded run_long_shot_def]
        generate_answering parse_long_shot]
    by (simp add: run_long_shot_def)
qed

lemma fail_at_no_faults: "fail_at no_faults n = None"
  by (simp add: no_faults_def)

lemma run_long_shot_stored:
  "episodes (db run_long_shot) 1 = Some \<lparr>ep_DramaID = 1, ep_Duration = - 153722867280912929\<rparr>"
proof -
  have "fail_at (db_faults (demo_world no_faults no_faults))
          (issued (db_faults run_long_shot) - 1) = None"
    by (simp add: demo_world_def fail_at_no_faults)
  note stored = stored_duration [OF demo_pending
      run_long_shot_completed [unfolded run_long_shot_def]
      run_long_shot_payload [unfolded run_long_shot_def] this [unfolded run_long_shot_def],
      folded run_long_shot_def]
  then obtain epID episode where
    "ParseUint32 ''1'' = Some epID"
    and "episodes (db (demo_world no_faults no_faults)) epID = Some episode"
    and "episodes (db run_long_shot) epID =
           Some (episode\<lparr>ep_Duration :=
             payload_duration_minutes
               \<lparr>payload_storyboards = long_shot, payload_total = 1,
                payload_total_duration = 9223372036854775807,
                payload_duration_minutes = - 153722867280912929\<rparr>\<rparr>)"
    by blast
  then show ?thesis
    using ParseUint32_1 demo_episode [of no_faults no_faults] by simp
qed

subsection \<open>Two more runs\<close>

lemma run_duration_write_fails_completed:
  "task_status (reg_task (registry run_duration_write_fails)) = Completed"
  unfolding run_duration_write_fails_def
  by (rule successful_run [OF _ demo_pending generate_answering parse_two_shots_array])
     (simp_all add: demo_world_def reliable_no_faults save_two_shots_failing)

lemma run_duration_write_fails_stored:
  "episodes (db run_duration_write_fails) 1 = Some \<lparr>ep_DramaID = 1, ep_Duration = 0\<rparr>"
proof (rule completed_run [OF demo_pending
      run_duration_write_fails_completed [unfolded run_duration_write_fails_def]])
  let ?f = "failing_at 8 ''database is locked''"
  let ?w = "demo_world no_faults ?f"
  fix answer result f1 s1
  assume gen: "generate_with (answering two_shots_array) [] 0 ''prompt'' [] = Inr answer"
    and parse: "parse_storyboards json_read answer = Inr result"
    and save0: "saveStoryboards ''1'' (Storyboards result) (db_faults ?w, db ?w) = (None, f1, s1)"
    and store: "db (processStoryboardGeneration (answering two_shots_array) json_read ''1'' []
                      ''prompt'' ?w) =
                snd (update_episode_duration ''1''
                    (quo (add64 (total_duration (Storyboards result)) 59) 60) (f1, s1))"
  from gen have "answer = two_shots_array" by (simp add: generate_answering)
  with parse have result: "Storyboards result = two_shots"
    by (auto simp: parse_two_shots_array)
  with save0 have save: "saveStoryboards ''1'' two_shots (?f, demo_store) = (None, f1, s1)"
    by (simp add: demo_world_def)
  from saveStoryboards_ok [OF save]
  have fa: "fail_at f1 = fail_at ?f" and eps: "episodes s1 = episodes demo_store"
    by simp_all
  from save save_two_shots_failing have "issued f1 = 8" by simp
  with fa have "fail_at f1 (issued f1) = Some ''database is locked''"
    by (simp add: failing_at_def)
  from update_episode_duration_failed [OF this] store eps show ?thesis
    by (simp add: run_duration_write_fails_def demo_store_def)
qed

lemma run_character_lookup_fails_completed:
  "task_status (reg_task (registry run_character_lookup_fails)) = Completed"
  unfolding run_character_lookup_fails_def
  by (rule successful_run [OF _ demo_pending generate_answering parse_cast_shots])
     (simp_all add: demo_world_def reliable_no_faults save_cast_shots)

lemma run_character_lookup_fails_payload:
  "task_result (reg_task (registry run_character_lookup_fails)) =
     Some \<lparr>payload_storyboards = cast_shots, payload_total = 2,
           payload_total_duration = 16, payload_duration_minutes = 1\<rparr>"
proof -
  have "total_duration cast_shots = 16"
    by (simp add: total_duration_def cast_shots_def add64_def wrap64_def)
  moreover have "quo (add64 16 59) 60 = 1"
    by (simp add: quo_def add64_def wrap64_def)
  ultimately show ?thesis
    using completed_payload [OF demo_pending
        run_character_lookup_fails_completed [unfolded run_character_lookup_fails_def]
        generate_answering parse_cast_shots]
    by (simp add: run_character_lookup_fails_def)
qed

lemma run_character_lookup_fails_issued:
  "issued (db_faults run_character_lookup_fails) = 10"
proof (rule completed_run [OF demo_pending
      run_character_lookup_fails_completed [unfolded run_character_lookup_fails_def]])
  let ?f = "failing_at 6 ''database is locked''"
  let ?w = "demo_world no_faults ?f"
  fix answer result f1 s1
  assume gen: "generate_with (answering cast_shots_array) [] 0 ''prompt'' [] = Inr answer"
    and parse: "parse_storyboards json_read answer = Inr result"
    and save0: "saveStoryboards ''1'' (Storyboards result) (db_faults ?w, db ?w) = (None, f1, s1)"
    and faults: "db_faults (processStoryboardGeneration (answering cast_shots_array) json_read
                      ''1'' [] ''prompt'' ?w) =
                fst (update_episode_duration ''1''
                    (quo (add64 (total_duration (Storyboards result)) 59) 60) (f1, s1))"
  from gen have "answer = cast_shots_array" by (simp add: generate_answering)
  with parse have result: "Storyboards result = cast_shots"
    by (auto simp: parse_cast_shots)
  with save0 have save: "saveStoryboards ''1'' cast_shots (?f, demo_store) = (None, f1, s1)"
    by (simp add: demo_world_def)
  with save_cast_shots_issued have "issued f1 = 9" by simp
  with faults update_episode_duration_faults [of "''1''" _ f1 s1] show ?thesis
    by (simp add: run_character_lookup_fails_def)
qed

subsection \<open>The duration stored for the episode\<close>

text \<open>
  Claim C6, as amended. When the job ends with the task completed, the update of the
  episode's duration (the last statement the job sends to the database) did not fail,
  every parsed shot has a non-negative duration and the sum of the durations plus 59 is
  below \<open>2 ^ 63\<close>, the episode named by the job has the duration
  \<open>(sum + 59) div 60\<close>: the least number of minutes that covers the sum of the shots'
  seconds. The shots are the ones the completed task carries as its result. Other
  statements may have failed, as far as the job tolerates it.
\<close>

theorem episode_duration_rounded_up:
  assumes pending: "task_status (reg_task (registry w)) = Pending"
    and completed: "task_status (reg_task (registry
           (processStoryboardGeneration ai decode episodeID model prompt w))) = Completed"
    and payload: "task_result (reg_task (registry
           (processStoryboardGeneration ai decode episodeID model prompt w))) = Some p"
    and updated: "fail_at (db_faults w)
           (issued (db_faults (processStoryboardGeneration ai decode episodeID model prompt w)) - 1)
           = None"
    and nonneg: "list_all (\<lambda>sb. 0 \<le> Duration sb) (payload_storyboards p)"
    and fits: "sum_list (map Duration (payload_storyboards p)) + 59 < 2 ^ 63"
  shows "\<exists>epID episode.
           ParseUint32 episodeID = Some epID
         \<and> episodes (db (processStoryboardGeneration ai decode episodeID model prompt w)) epID
             = Some episode
         \<and> ep_Duration episode = (sum_list (map Duration (payload_storyboards p)) + 59) div 60
         \<and> sum_list (map Duration (payload_storyboards p)) \<le> 60 * ep_Duration episode
         \<and> 60 * ep_Duration episode < sum_list (map Duration (payload_storyboards p)) + 60"
proof -
  let ?run = "processStoryboardGeneration ai decode episodeID model prompt w"
  let ?sum = "sum_list (map Duration (payload_storyboards p))"
  have minutes: "payload_duration_minutes p = (?sum + 59) div 60"
  proof (rule completed_run [OF pending completed])
    fix answer result f1 s1
    assume "task_result (reg_task (registry ?run)) =
             Some \<lparr>payload_storyboards = Storyboards result,
                   payload_total = Total result,
                   payload_total_duration = total_duration (Storyboards result),
                   payload_duration_minutes =
                     quo (add64 (total_duration (Storyboards result)) 59) 60\<rparr>"
    with payload have shots: "payload_storyboards p = Storyboards result"
      and m: "payload_duration_minutes p =
                quo (add64 (total_duration (Storyboards result)) 59) 60"
      by auto
    have ds: "\<forall>d \<in> set (map Duration (payload_storyboards p)). 0 \<le> d"
      using nonneg by (auto simp: list_all_iff)
    have sum_nonneg: "0 \<le> ?sum" using ds by (intro sum_list_nonneg) auto
    have "foldl add64 0 (map Duration (payload_storyboards p)) = 0 + ?sum"
      using ds fits by (intro foldl_add64) auto
    then have total: "total_duration (Storyboards result) = ?sum"
      using shots by (simp add: total_duration_def)
    have "quo (add64 ?sum 59) 60 = (?sum + 59) div 60"
      using sum_nonneg fits by (intro rounded_up_minutes) auto
    with m total show ?thesis by simp
  qed
  from stored_duration [OF pending completed payload updated] obtain epID episode where
    parse: "ParseUint32 episodeID = Some epID"
    and stored: "episodes (db ?run) epID =
                   Some (episode\<lparr>ep_Duration := payload_duration_minutes p\<rparr>)"
    by blast
  have "?sum \<le> 60 * ((?sum + 59) div 60)" by presburger
  moreover have "60 * ((?sum + 59) div 60) < ?sum + 60" by presburger
  ultimately show ?thesis using parse stored minutes by auto
qed

theorem episode_duration_rounded_up_witness:
  "task_status (reg_task (registry (demo_world no_faults (failing_at 6 ''database is locked''))))
     = Pending
   \<and> task_status (reg_task (registry run_character_lookup_fails)) = Completed
   \<and> task_result (reg_task (registry run_character_lookup_fails)) =
        Some \<lparr>payload_storyboards = cast_shots, payload_total = 2,
              payload_total_duration = 16, payload_duration_minutes = 1\<rparr>
   \<and> fail_at (failing_at 6 ''database is locked'') 6 = Some ''database is locked''
   \<and> issued (db_faults run_character_lookup_fails) = 10
   \<and> fail_at (failing_at 6 ''database is locked'') 9 = None
   \<and> list_all (\<lambda>sb. 0 \<le> Duration sb) cast_shots
   \<and> sum_list (map Duration cast_shots) + 59 < 2 ^ 63
   \<and> (\<exists>episode. episodes (db run_character_lookup_fails) 1 = Some episode
         \<and> ep_Duration episode = 1)"
proof -
  let ?f = "failing_at 6 ''database is locked''"
  let ?p = "\<lparr>payload_storyboards = cast_shots, payload_total = 2,
              payload_total_duration = 16, payload_duration_minutes = 1\<rparr>"
  have f6: "fail_at ?f 6 = Some ''database is locked''" and f9: "fail_at ?f 9 = None"
    by (simp_all add: failing_at_def)
  have updated: "fail_at (db_faults (demo_world no_faults ?f))
                   (issued (db_faults run_character_lookup_fails) - 1) = None"
    using f9 by (simp add: run_character_lookup_fails_issued demo_world_def)
  have nonneg: "list_all (\<lambda>sb. 0 \<le> Duration sb) (payload_storyboards ?p)"
    by (simp add: cast_shots_def zero_Storyboard_def)
  have total: "sum_list (map Duration cast_shots) = 16"
    by (simp add: cast_shots_def zero_Storyboard_def)
  then have fits: "sum_list (map Duration (payload_storyboards ?p)) + 59 < 2 ^ 63"
    by simp
  note inst = episode_duration_rounded_up [OF demo_pending
      run_character_lookup_fails_completed [unfolded run_character_lookup_fails_def]
      run_character_lookup_fails_payload [unfolded run_character_lookup_fails_def]
      updated [unfolded run_character_lookup_fails_def] nonneg fits,
      folded run_character_lookup_fails_def]
  then obtain epID episode where
    "ParseUint32 ''1'' = Some epID"
    "episodes (db run_character_lookup_fails) epID = Some episode"
    "ep_Duration episode = (sum_list (map Duration (payload_storyboards ?p)) + 59) div 60"
    by blast
  with total have "\<exists>episode. episodes (db run_character_lookup_fails) 1 = Some episode
      \<and> ep_Duration episode = 1"
    by (simp add: ParseUint32_1)
  with demo_pending run_character_lookup_fails_completed run_character_lookup_fails_payload
    f6 f9 run_character_lookup_fails_issued nonneg fits
  show ?thesis by simp
qed

theorem episode_duration_counterexample:
  "task_status (reg_task (registry run_long_shot)) = Completed
   \<and> task_result (reg_task (registry run_long_shot)) =
        Some \<lparr>payload_storyboards = long_shot, payload_total = 1,
              payload_total_duration = 9223372036854775807,
              payload_duration_minutes = - 153722867280912929\<rparr>
   \<and> list_all (\<lambda>sb. 0 \<le> Duration sb) long_shot
   \<and> episodes (db run_long_shot) 1 =
        Some \<lparr>ep_DramaID = 1, ep_Duration = - 153722867280912929\<rparr>
   \<and> (sum_list (map Duration long_shot) + 59) div 60 = 153722867280912931
   \<and> task_status (reg_task (registry run_duration_write_fails)) = Completed
   \<and> episodes (db run_duration_write_fails) 1 = Some \<lparr>ep_DramaID = 1, ep_Duration = 0\<rparr>
   \<and> (sum_list (map Duration two_shots) + 59) div 60 = 1"
proof -
  have "list_all (\<lambda>sb. 0 \<le> Duration sb) long_shot"
    by (simp add: long_shot_def zero_Storyboard_def)
  moreover have "(sum_list (map Duration long_shot) + 59) div 60 = 153722867280912931"
    by (simp add: long_shot_def zero_Storyboard_def)
  moreover have "(sum_list (map Duration two_shots) + 59) div 60 = 1"
    by (simp add: two_shots_def zero_Storyboard_def)
  ultimately show ?thesis
    using run_long_shot_completed run_long_shot_payload run_long_shot_stored
      run_duration_write_fails_completed run_duration_write_fails_stored
    by simp
qed

subsection \<open>Messages of the frame prompt service\<close>

text \<open>The texts are the UTF-8 bytes of the Chinese literals in the source; the comment
  gives each one's meaning.\<close>

definition msg_frame_started :: string where \<comment> \<open>generating the frame prompt\<close>
  "msg_frame_started = [CHR 0xE6, CHR 0xAD, CHR 0xA3, CHR 0xE5, CHR 0x9C, CHR 0xA8, CHR 0xE7, CHR 0x94, CHR 0x9F, CHR 0xE6, CHR 0x88, CHR 0x90, CHR 0xE5, CHR 0xB8, CHR 0xA7, CHR 0xE6, CHR 0x8F, CHR 0x90, CHR 0xE7, CHR 0xA4, CHR 0xBA, CHR 0xE8, CHR 0xAF, CHR 0x8D] @ ''...''"

definition msg_storyboard_missing :: string where \<comment> \<open>the storyboard does not exist\<close>
  "msg_storyboard_missing = [CHR 0xE5, CHR 0x88, CHR 0x86, CHR 0xE9, CHR 0x95, CHR 0x9C, CHR 0xE4, CHR 0xBF, CHR 0xA1, CHR 0xE6, CHR 0x81, CHR 0xAF, CHR 0xE4, CHR 0xB8, CHR 0x8D, CHR 0xE5, CHR 0xAD, CHR 0x98, CHR 0xE5, CHR 0x9C, CHR 0xA8]"

definition msg_unsupported_frame_type :: string where \<comment> \<open>unsupported frame type\<close>
  "msg_unsupported_frame_type = [CHR 0xE4, CHR 0xB8, CHR 0x8D, CHR 0xE6, CHR 0x94, CHR 0xAF, CHR 0xE6, CHR 0x8C, CHR 0x81, CHR 0xE7, CHR 0x9A, CHR 0x84, CHR 0xE5, CHR 0xB8, CHR 0xA7, CHR 0xE7, CHR 0xB1, CHR 0xBB, CHR 0xE5, CHR 0x9E, CHR 0x8B]"

definition desc_panel_combined :: string where \<comment> \<open>combined prompt of the panel\<close>
  "desc_panel_combined = [CHR 0xE5, CHR 0x88, CHR 0x86, CHR 0xE9, CHR 0x95, CHR 0x9C, CHR 0xE6, CHR 0x9D, CHR 0xBF, CHR 0xE7, CHR 0xBB, CHR 0x84, CHR 0xE5, CHR 0x90, CHR 0x88, CHR 0xE6, CHR 0x8F, CHR 0x90, CHR 0xE7, CHR 0xA4, CHR 0xBA, CHR 0xE8, CHR 0xAF, CHR 0x8D]"

definition desc_action_combined :: string where \<comment> \<open>combined prompt of the action sequence\<close>
  "desc_action_combined = [CHR 0xE5, CHR 0x8A, CHR 0xA8, CHR 0xE4, CHR 0xBD, CHR 0x9C, CHR 0xE5, CHR 0xBA, CHR 0x8F, CHR 0xE5, CHR 0x88, CHR 0x97, CHR 0xE7, CHR 0xBB, CHR 0x84, CHR 0xE5, CHR 0x90, CHR 0x88, CHR 0xE6, CHR 0x8F, CHR 0x90, CHR 0xE7, CHR 0xA4, CHR 0xBA, CHR 0xE8, CHR 0xAF, CHR 0x8D]"

definition desc_first_fallback :: string where \<comment> \<open>the still picture the shot starts with, showing the initial state\<close>
  "desc_first_fallback = [CHR 0xE9, CHR 0x95, CHR 0x9C, CHR 0xE5, CHR 0xA4, CHR 0xB4, CHR 0xE5, CHR 0xBC, CHR 0x80, CHR 0xE5, CHR 0xA7, CHR 0x8B, CHR 0xE7, CHR 0x9A, CHR 0x84, CHR 0xE9, CHR 0x9D, CHR 0x99, CHR 0xE6, CHR 0x80, CHR 0x81, CHR 0xE7, CHR 0x94, CHR 0xBB, CHR 0xE9, CHR 0x9D, CHR 0xA2, CHR 0xEF, CHR 0xBC, CHR 0x8C, CHR 0xE5, CHR 0xB1, CHR 0x95, CHR 0xE7, CHR 0xA4, CHR 0xBA, CHR 0xE5, CHR 0x88, CHR 0x9D, CHR 0xE5, CHR 0xA7, CHR 0x8B, CHR 0xE7, CHR 0x8A, CHR 0xB6, CHR 0xE6, CHR 0x80, CHR 0x81]"

definition desc_key_fallback :: string where \<comment> \<open>the moment of the climax, showing the key action\<close>
  "desc_key_fallback = [CHR 0xE5, CHR 0x8A, CHR 0xA8, CHR 0xE4, CHR 0xBD, CHR 0x9C, CHR 0xE9, CHR 0xAB, CHR 0x98, CHR 0xE6, CHR 0xBD, CHR 0xAE, CHR 0xE7, CHR 0x9E, CHR 0xAC, CHR 0xE9, CHR 0x97, CHR 0xB4, CHR 0xEF, CHR 0xBC, CHR 0x8C, CHR 0xE5, CHR 0xB1, CHR 0x95, CHR 0xE7, CHR 0xA4, CHR 0xBA, CHR 0xE5, CHR 0x85, CHR 0xB3, CHR 0xE9, CHR 0x94, CHR 0xAE, CHR 0xE5, CHR 0x8A, CHR 0xA8, CHR 0xE4, CHR 0xBD, CHR 0x9C]"

definition desc_last_fallback :: string where \<comment> \<open>the picture the shot ends with, showing the final state and the result\<close>
  "desc_last_fallback = [CHR 0xE9, CHR 0x95, CHR 0x9C, CHR 0xE5, CHR 0xA4, CHR 0xB4, CHR 0xE7, CHR 0xBB, CHR 0x93, CHR 0xE6, CHR 0x9D, CHR 0x9F, CHR 0xE7, CHR 0x94, CHR 0xBB, CHR 0xE9, CHR 0x9D, CHR 0xA2, CHR 0xEF, CHR 0xBC, CHR 0x8C, CHR 0xE5, CHR 0xB1, CHR 0x95, CHR 0xE7, CHR 0xA4, CHR 0xBA, CHR 0xE6, CHR 0x9C, CHR 0x80, CHR 0xE7, CHR 0xBB, CHR 0x88, CHR 0xE7, CHR 0x8A, CHR 0xB6, CHR 0xE6, CHR 0x80, CHR 0x81, CHR 0xE5, CHR 0x92, CHR 0x8C, CHR 0xE7, CHR 0xBB, CHR 0x93, CHR 0xE6, CHR 0x9E, CHR 0x9C]"

definition desc_panel_1 :: string where \<comment> \<open>panel 1: initial state\<close>
  "desc_panel_1 = [CHR 0xE7, CHR 0xAC, CHR 0xAC] @ ''1'' @ [CHR 0xE6, CHR 0xA0, CHR 0xBC, CHR 0xEF, CHR 0xBC, CHR 0x9A, CHR 0xE5, CHR 0x88, CHR 0x9D, CHR 0xE5, CHR 0xA7, CHR 0x8B, CHR 0xE7, CHR 0x8A, CHR 0xB6, CHR 0xE6, CHR 0x80, CHR 0x81]"

definition desc_panel_2 :: string where \<comment> \<open>panel 2: climax of the action\<close>
  "desc_panel_2 = [CHR 0xE7, CHR 0xAC, CHR 0xAC] @ ''2'' @ [CHR 0xE6, CHR 0xA0, CHR 0xBC, CHR 0xEF, CHR 0xBC, CHR 0x9A, CHR 0xE5, CHR 0x8A, CHR 0xA8, CHR 0xE4, CHR 0xBD, CHR 0x9C, CHR 0xE9, CHR 0xAB, CHR 0x98, CHR 0xE6, CHR 0xBD, CHR 0xAE]"

definition desc_panel_3 :: string where \<comment> \<open>panel 3: final state\<close>
  "desc_panel_3 = [CHR 0xE7, CHR 0xAC, CHR 0xAC] @ ''3'' @ [CHR 0xE6, CHR 0xA0, CHR 0xBC, CHR 0xEF, CHR 0xBC, CHR 0x9A, CHR 0xE6, CHR 0x9C, CHR 0x80, CHR 0xE7, CHR 0xBB, CHR 0x88, CHR 0xE7, CHR 0x8A, CHR 0xB6, CHR 0xE6, CHR 0x80, CHR 0x81]"

section \<open>Frame prompts\<close>

subsection \<open>Data\<close>

record SingleFramePrompt =
  Prompt :: string
  Description :: string

record MultiFramePrompt =
  Layout :: string
  Frames :: "SingleFramePrompt list"

text \<open>\<^verbatim>\<open>FrameType\<close> is a string type; the request may carry any string.\<close>

definition FrameTypeFirst :: string where "FrameTypeFirst = ''first''"
definition FrameTypeKey :: string where "FrameTypeKey = ''key''"
definition FrameTypeLast :: string where "FrameTypeLast = ''last''"
definition FrameTypePanel :: string where "FrameTypePanel = ''panel''"
definition FrameTypeAction :: string where "FrameTypeAction = ''action''"

text \<open>The request. The storyboard identifier is the number the route parameter denotes.\<close>

record GenerateFramePromptRequest =
  StoryboardID :: nat
  FrameType :: string
  PanelCount :: int

record FramePromptResponse =
  resp_FrameType :: string
  SingleFrame :: "SingleFramePrompt option"
  MultiFrame :: "MultiFramePrompt option"

text \<open>The storyboard row as the frame prompt service reads it, with its characters
  preloaded (their names), and the scene row.\<close>

record ShotRow =
  shot_SceneID :: "nat option"
  shot_Description :: "string option"
  shot_Location :: "string option"
  shot_Time :: "string option"
  shot_Action :: "string option"
  shot_Result :: "string option"
  shot_Dialogue :: "string option"
  shot_Atmosphere :: "string option"
  shot_ShotType :: "string option"
  shot_Angle :: "string option"
  shot_Movement :: "string option"
  shot_Characters :: "string list"

record SceneRow =
  scene_Location :: string
  scene_Time :: string

record FramePromptRow =
  fp_StoryboardID :: nat
  fp_FrameType :: string
  fp_Prompt :: string
  fp_Description :: "string option"
  fp_Layout :: "string option"

text \<open>
  The environment: the text model, the prompt catalogue (\<^verbatim>\<open>promptI18n\<close>) and the parser of
  a single frame's answer (\<^verbatim>\<open>parseFramePromptJSON\<close>), none of them among the sources.
\<close>

record frame_env =
  frame_ai :: text_ai
  GetFirstFramePrompt :: string
  GetKeyFramePrompt :: string
  GetLastFramePrompt :: string
  FormatUserPrompt :: "string \<Rightarrow> string list \<Rightarrow> string"
  parseFramePromptJSON :: "string \<Rightarrow> SingleFramePrompt option"

subsection \<open>Prompt texts\<close>

definition present :: "string option \<Rightarrow> bool" where
  "present p = (case p of None \<Rightarrow> False | Some s \<Rightarrow> s \<noteq> [])"

definition buildStoryboardContext :: "frame_env \<Rightarrow> ShotRow \<Rightarrow> SceneRow option \<Rightarrow> string" where
  "buildStoryboardContext env sb scene =
     Join
       ((if present (shot_Description sb)
         then [FormatUserPrompt env ''shot_description_label'' [the (shot_Description sb)]] else [])
        @ (case scene of
             Some sc \<Rightarrow> [FormatUserPrompt env ''scene_label'' [scene_Location sc, scene_Time sc]]
           | None \<Rightarrow>
               (if shot_Location sb \<noteq> None \<and> shot_Time sb \<noteq> None
                then [FormatUserPrompt env ''scene_label''
                        [the (shot_Location sb), the (shot_Time sb)]]
                else []))
        @ (if shot_Characters sb \<noteq> []
           then [FormatUserPrompt env ''characters_label'' [Join (shot_Characters sb) '', '']]
           else [])
        @ (if present (shot_Action sb)
           then [FormatUserPrompt env ''action_label'' [the (shot_Action sb)]] else [])
        @ (if present (shot_Result sb)
           then [FormatUserPrompt env ''result_label'' [the (shot_Result sb)]] else [])
        @ (if present (shot_Dialogue sb)
           then [FormatUserPrompt env ''dialogue_label'' [the (shot_Dialogue sb)]] else [])
        @ (if present (shot_Atmosphere sb)
           then [FormatUserPrompt env ''atmosphere_label'' [the (shot_Atmosphere sb)]] else [])
        @ (case shot_ShotType sb of
             Some v \<Rightarrow> [FormatUserPrompt env ''shot_type_label'' [v]] | None \<Rightarrow> [])
        @ (case shot_Angle sb of
             Some v \<Rightarrow> [FormatUserPrompt env ''angle_label'' [v]] | None \<Rightarrow> [])
        @ (case shot_Movement sb of
             Some v \<Rightarrow> [FormatUserPrompt env ''movement_label'' [v]] | None \<Rightarrow> []))
       [CHR 0x0A]"

definition buildFallbackPrompt :: "ShotRow \<Rightarrow> SceneRow option \<Rightarrow> string \<Rightarrow> string" where
  "buildFallbackPrompt sb scene suffix =
     Join
       ((case scene of
           Some sc \<Rightarrow> [scene_Location sc @ '', '' @ scene_Time sc]
         | None \<Rightarrow> [])
        @ shot_Characters sb
        @ (case shot_Atmosphere sb of Some a \<Rightarrow> [a] | None \<Rightarrow> [])
        @ [''anime style'', suffix])
       '', ''"

subsection \<open>Single frames\<close>

text \<open>
  \<^verbatim>\<open>generateFirstFrame\<close>, \<^verbatim>\<open>generateKeyFrame\<close> and \<^verbatim>\<open>generateLastFrame\<close> have one body
  with four texts changed: the system prompt, the key of the user prompt, the suffix of
  the fallback prompt and the fallback description. Each makes exactly one call of the
  text model; \<open>n\<close> is the number of calls made before it.
\<close>

definition single_frame ::
  "frame_env \<Rightarrow> string \<Rightarrow> string \<Rightarrow> string \<Rightarrow> string
     \<Rightarrow> ShotRow \<Rightarrow> SceneRow option \<Rightarrow> string \<Rightarrow> nat \<Rightarrow> SingleFramePrompt" where
  "single_frame env systemPrompt key suffix description sb scene model n =
     (let contextInfo = buildStoryboardContext env sb scene;
          userPrompt = FormatUserPrompt env key [contextInfo];
          fallback = \<lparr>Prompt = buildFallbackPrompt sb scene suffix, Description = description\<rparr>
      in case generate_with (frame_ai env) model n userPrompt systemPrompt of
           Inl err \<Rightarrow> fallback
         | Inr aiResponse \<Rightarrow>
             (case parseFramePromptJSON env aiResponse of
                None \<Rightarrow> fallback
              | Some result \<Rightarrow> result))"

definition generateFirstFrame ::
  "frame_env \<Rightarrow> ShotRow \<Rightarrow> SceneRow option \<Rightarrow> string \<Rightarrow> nat \<Rightarrow> SingleFramePrompt" where
  "generateFirstFrame env =
     single_frame env (GetFirstFramePrompt env) ''frame_info'' ''first frame, static shot''
       desc_first_fallback"

definition generateKeyFrame ::
  "frame_env \<Rightarrow> ShotRow \<Rightarrow> SceneRow option \<Rightarrow> string \<Rightarrow> nat \<Rightarrow> SingleFramePrompt" where
  "generateKeyFrame env =
     single_frame env (GetKeyFramePrompt env) ''key_frame_info'' ''key frame, dynamic action''
       desc_key_fallback"

definition generateLastFrame ::
  "frame_env \<Rightarrow> ShotRow \<Rightarrow> SceneRow option \<Rightarrow> string \<Rightarrow> nat \<Rightarrow> SingleFramePrompt" where
  "generateLastFrame env =
     single_frame env (GetLastFramePrompt env) ''last_frame_info'' ''last frame, final state''
       desc_last_fallback"

subsection \<open>Composed frames\<close>

text \<open>
  A function either returns or panics. \<^verbatim>\<open>make([]SingleFramePrompt, count)\<close> panics on a
  negative length; otherwise it gives \<open>count\<close> frames with empty texts. (A length that
  exhausts memory is outside the model.) The result carries the number of calls of the
  text model made so far.
\<close>

datatype 'a outcome = Returned 'a | Panicked string

definition make_frames :: "int \<Rightarrow> SingleFramePrompt list outcome" where
  "make_frames count =
     (if count < 0 then Panicked ''makeslice: len out of range''
      else Returned (replicate (nat count) \<lparr>Prompt = [], Description = []\<rparr>))"

definition generatePanelFrames ::
  "frame_env \<Rightarrow> ShotRow \<Rightarrow> SceneRow option \<Rightarrow> int \<Rightarrow> string \<Rightarrow> nat
     \<Rightarrow> (MultiFramePrompt \<times> nat) outcome" where
  "generatePanelFrames env sb scene count model n =
     (let layout = ''horizontal_'' @ Sprintf_d count in
      case make_frames count of
        Panicked msg \<Rightarrow> Panicked msg
      | Returned frames \<Rightarrow>
          if count = 3 then
            (let frames = frames[0 := (generateFirstFrame env sb scene model n)
                                   \<lparr>Description := desc_panel_1\<rparr>];
                 frames = frames[1 := (generateKeyFrame env sb scene model (n + 1))
                                   \<lparr>Description := desc_panel_2\<rparr>];
                 frames = frames[2 := (generateLastFrame env sb scene model (n + 2))
                                   \<lparr>Description := desc_panel_3\<rparr>]
             in Returned (\<lparr>Layout = layout, Frames = frames\<rparr>, n + 3))
          else if count = 4 then
            (let frames = frames[0 := generateFirstFrame env sb scene model n];
                 frames = frames[1 := generateKeyFrame env sb scene model (n + 1)];
                 frames = frames[2 := generateKeyFrame env sb scene model (n + 2)];
                 frames = frames[3 := generateLastFrame env sb scene model (n + 3)]
             in Returned (\<lparr>Layout = layout, Frames = frames\<rparr>, n + 4))
          else Returned (\<lparr>Layout = layout, Frames = frames\<rparr>, n))"

definition generateActionSequence ::
  "frame_env \<Rightarrow> ShotRow \<Rightarrow> SceneRow option \<Rightarrow> string \<Rightarrow> nat \<Rightarrow> MultiFramePrompt \<times> nat" where
  "generateActionSequence env sb scene model n =
     (let frames = replicate 5 \<lparr>Prompt = [], Description = []\<rparr>;
          frames = frames[0 := generateFirstFrame env sb scene model n];
          frames = frames[1 := generateKeyFrame env sb scene model (n + 1)];
          frames = frames[2 := generateKeyFrame env sb scene model (n + 2)];
          frames = frames[3 := generateKeyFrame env sb scene model (n + 3)];
          frames = frames[4 := generateLastFrame env sb scene model (n + 4)]
      in (\<lparr>Layout = ''horizontal_5'', Frames = frames\<rparr>, n + 5))"

subsection \<open>The background job: \<^verbatim>\<open>processFramePromptGeneration\<close>\<close>

record frame_payload =
  payload_response :: FramePromptResponse
  payload_storyboard_id :: nat
  payload_frame_type :: string

record frame_world =
  frame_registry :: "frame_payload registry"
  frame_storyboards :: "nat \<rightharpoonup> ShotRow"
  frame_scenes :: "nat \<rightharpoonup> SceneRow"
  frame_prompts :: "FramePromptRow list"
  frame_db_faults :: faults
  ai_calls :: nat

text \<open>\<^verbatim>\<open>saveFramePrompt\<close>: the rows of the same storyboard and frame type are deleted, then
  the new row is created; a failed creation is logged and nothing else.\<close>

definition saveFramePrompt ::
  "nat \<Rightarrow> string \<Rightarrow> string \<Rightarrow> string \<Rightarrow> string \<Rightarrow> frame_world \<Rightarrow> frame_world" where
  "saveFramePrompt storyboardID frameType prompt description layout w =
     (let framePrompt = \<lparr>fp_StoryboardID = storyboardID, fp_FrameType = frameType,
                          fp_Prompt = prompt,
                          fp_Description = ptr_nonempty description,
                          fp_Layout = ptr_nonempty layout\<rparr>;
          kept = filter (\<lambda>r. \<not> (fp_StoryboardID r = storyboardID \<and> fp_FrameType r = frameType))
                   (frame_prompts w)
      in case attempt (frame_db_faults w) of
           (Some err, f1) \<Rightarrow> w\<lparr>frame_prompts := kept, frame_db_faults := f1\<rparr>
         | (None, f1) \<Rightarrow> w\<lparr>frame_prompts := kept @ [framePrompt], frame_db_faults := f1\<rparr>)"

text \<open>The task is completed with the response, after the combined or single prompt has
  been saved.\<close>

definition finish_frame_task ::
  "GenerateFramePromptRequest \<Rightarrow> FramePromptResponse \<Rightarrow> frame_world \<Rightarrow> frame_world" where
  "finish_frame_task req response w =
     w\<lparr>frame_registry :=
         snd (UpdateTaskResult
                \<lparr>payload_response = response, payload_storyboard_id = StoryboardID req,
                 payload_frame_type = FrameType req\<rparr>
                (frame_registry w))\<rparr>"

definition single_frame_case ::
  "GenerateFramePromptRequest \<Rightarrow> SingleFramePrompt \<Rightarrow> frame_world \<Rightarrow> frame_world" where
  "single_frame_case req frame w =
     finish_frame_task req
       \<lparr>resp_FrameType = FrameType req, SingleFrame = Some frame, MultiFrame = None\<rparr>
       (saveFramePrompt (StoryboardID req) (FrameType req) (Prompt frame) (Description frame) []
          (w\<lparr>ai_calls := ai_calls w + 1\<rparr>))"

text \<open>The separator between the prompts of a combined record, and the rows stored for a
  storyboard and frame type.\<close>

definition separator :: string where
  "separator = [CHR 0x0A] @ ''---'' @ [CHR 0x0A]"


definition multi_frame_case ::
  "GenerateFramePromptRequest \<Rightarrow> string \<Rightarrow> MultiFramePrompt \<times> nat \<Rightarrow> frame_world \<Rightarrow> frame_world" where
  "multi_frame_case req description multi w =
     (let prompts = map Prompt (Frames (fst multi));
          combinedPrompt = Join prompts separator
      in finish_frame_task req
           \<lparr>resp_FrameType = FrameType req, SingleFrame = None, MultiFrame = Some (fst multi)\<rparr>
           (saveFramePrompt (StoryboardID req) (FrameType req) combinedPrompt description
              (Layout (fst multi)) (w\<lparr>ai_calls := snd multi\<rparr>)))"

text \<open>The scene of a storyboard row: none when the row names none, or when the scene it
  names is not found.\<close>

definition scene_of :: "frame_world \<Rightarrow> ShotRow \<Rightarrow> SceneRow option" where
  "scene_of w sb = (case shot_SceneID sb of None \<Rightarrow> None | Some sid \<Rightarrow> frame_scenes w sid)"

definition processFramePromptGeneration ::
  "frame_env \<Rightarrow> GenerateFramePromptRequest \<Rightarrow> string \<Rightarrow> frame_world \<Rightarrow> frame_world outcome" where
  "processFramePromptGeneration env req model w0 =
     (let w = w0\<lparr>frame_registry :=
                   snd (UpdateTaskStatus Processing 0 msg_frame_started (frame_registry w0))\<rparr>
      in case frame_storyboards w (StoryboardID req) of
           None \<Rightarrow>
             Returned (w\<lparr>frame_registry :=
               snd (UpdateTaskStatus Failed 0 msg_storyboard_missing (frame_registry w))\<rparr>)
         | Some storyboard \<Rightarrow>
             (let scene = scene_of w storyboard;
                  n = ai_calls w
              in if FrameType req = FrameTypeFirst then
                   Returned (single_frame_case req (generateFirstFrame env storyboard scene model n) w)
                 else if FrameType req = FrameTypeKey then
                   Returned (single_frame_case req (generateKeyFrame env storyboard scene model n) w)
                 else if FrameType req = FrameTypeLast then
                   Returned (single_frame_case req (generateLastFrame env storyboard scene model n) w)
                 else if FrameType req = FrameTypePanel then
                   (let count = (if PanelCount req = 0 then 3 else PanelCount req) in
                    case generatePanelFrames env storyboard scene count model n of
                      Panicked msg \<Rightarrow> Panicked msg
                    | Returned multi \<Rightarrow>
                        Returned (multi_frame_case req desc_panel_combined multi w))
                 else if FrameType req = FrameTypeAction then
                   Returned (multi_frame_case req desc_action_combined
                               (generateActionSequence env storyboard scene model n) w)
                 else
                   Returned (w\<lparr>frame_registry :=
                     snd (UpdateTaskStatus Failed 0 msg_unsupported_frame_type (frame_registry w))\<rparr>)))"

subsection \<open>The job returns, and where it ends\<close>

lemma frame_job_returns:
  "FrameType req \<noteq> FrameTypePanel \<or> 0 \<le> PanelCount req \<Longrightarrow>
   \<exists>w'. processFramePromptGeneration env req model w = Returned w'"
  by (auto simp: processFramePromptGeneration_def generatePanelFrames_def make_frames_def Let_def
      split: option.splits outcome.splits)

lemma frame_job_ends:
  assumes "reliable (reg_faults (frame_registry w))"
    and "task_status (reg_task (frame_registry w)) = Pending"
    and "processFramePromptGeneration env req model w = Returned w'"
  shows "task_status (reg_task (frame_registry w')) = Completed
          \<and> (\<exists>response. resp_FrameType response = FrameType req
                \<and> task_result (reg_task (frame_registry w')) =
                    Some \<lparr>payload_response = response,
                          payload_storyboard_id = StoryboardID req,
                          payload_frame_type = FrameType req\<rparr>)
       \<or> task_status (reg_task (frame_registry w')) = Failed
          \<and> (task_message (reg_task (frame_registry w')) = msg_storyboard_missing
             \<or> task_message (reg_task (frame_registry w')) = msg_unsupported_frame_type)"
  using assms
  by (auto simp: processFramePromptGeneration_def UpdateTaskStatus_def UpdateTaskResult_def
        registry_write_reliable terminal_def Let_def single_frame_case_def multi_frame_case_def
        finish_frame_task_def saveFramePrompt_def
      split: option.splits outcome.splits prod.splits if_splits)

subsection \<open>What the composed frames are\<close>











subsection \<open>The composed cases of the job\<close>

lemma scene_of_registry [simp]: "scene_of (w\<lparr>frame_registry := r\<rparr>) sb = scene_of w sb"
  by (simp add: scene_of_def split: option.splits)

text \<open>The world after the job's first statement, the report that processing began.\<close>

definition started :: "frame_world \<Rightarrow> frame_world" where
  "started w =
     w\<lparr>frame_registry :=
         snd (UpdateTaskStatus Processing 0 msg_frame_started (frame_registry w))\<rparr>"

lemma started_fields [simp]:
  "frame_storyboards (started w) = frame_storyboards w"
  "frame_scenes (started w) = frame_scenes w"
  "frame_prompts (started w) = frame_prompts w"
  "frame_db_faults (started w) = frame_db_faults w"
  "ai_calls (started w) = ai_calls w"
  by (simp_all add: started_def)




subsection \<open>A storyboard to generate frames for\<close>

text \<open>The text model answers the \<open>n\<close>-th call with the system prompt followed by
  \<open>n\<close>; the answer's parser takes a non-empty answer as the prompt.\<close>

definition demo_frame_env :: frame_env where
  "demo_frame_env =
     \<lparr>frame_ai =
        \<lparr>GetAIClientForModel = (\<lambda>kind model. Some ''model not found''),
         ClientGenerateText = (\<lambda>model n prompt systemPrompt. Inl ''no client''),
         GenerateText = (\<lambda>n prompt systemPrompt. Inr (systemPrompt @ ''#'' @ decimal n))\<rparr>,
      GetFirstFramePrompt = ''first'',
      GetKeyFramePrompt = ''key'',
      GetLastFramePrompt = ''last'',
      FormatUserPrompt = (\<lambda>key args. key @ '': '' @ Join args '', ''),
      parseFramePromptJSON =
        (\<lambda>answer. if answer = [] then None
                  else Some \<lparr>Prompt = answer, Description = ''from the model''\<rparr>)\<rparr>"

definition demo_shot :: ShotRow where
  "demo_shot =
     \<lparr>shot_SceneID = Some 3, shot_Description = Some ''a door opens'',
      shot_Location = Some ''warehouse'', shot_Time = Some ''night'',
      shot_Action = Some ''she pushes the door'', shot_Result = None, shot_Dialogue = None,
      shot_Atmosphere = Some ''cold'', shot_ShotType = None, shot_Angle = None,
      shot_Movement = None, shot_Characters = [''Li'']\<rparr>"

definition demo_frame_world :: frame_world where
  "demo_frame_world =
     \<lparr>frame_registry = \<lparr>reg_task = new_task, reg_faults = no_faults\<rparr>,
      frame_storyboards = [7 \<mapsto> demo_shot],
      frame_scenes = [3 \<mapsto> \<lparr>scene_Location = ''warehouse'', scene_Time = ''night''\<rparr>],
      frame_prompts =
        [\<lparr>fp_StoryboardID = 7, fp_FrameType = ''panel'', fp_Prompt = ''old'',
          fp_Description = None, fp_Layout = None\<rparr>],
      frame_db_faults = no_faults,
      ai_calls = 0\<rparr>"


subsection \<open>The order of the composed frames\<close>



definition first_key_key_key_last ::
  "frame_env \<Rightarrow> ShotRow \<Rightarrow> SceneRow option \<Rightarrow> string \<Rightarrow> nat \<Rightarrow> SingleFramePrompt list" where
  "first_key_key_key_last env sb scene model n =
     [generateFirstFrame env sb scene model n,
      generateKeyFrame env sb scene model (n + 1),
      generateKeyFrame env sb scene model (n + 2),
      generateKeyFrame env sb scene model (n + 3),
      generateLastFrame env sb scene model (n + 4)]"












lemma demo_action_prompts:
  "map Prompt (first_key_key_key_last demo_frame_env demo_shot
        (scene_of demo_frame_world demo_shot) [] 0)
     = [''first#0'', ''key#1'', ''key#2'', ''key#3'', ''last#4'']"
  by code_simp



section \<open>Panel counts other than three and four\<close>











section \<open>Provider resolution for image clients\<close>

text \<open>
  The image service resolves a provider configuration and builds a client from it
  (\<^verbatim>\<open>getImageClientWithModel\<close>). The configuration lookups belong to the AI service, which
  is outside the files at hand: they are the environment of the function. An error is the
  text of Go's \<^verbatim>\<open>err.Error()\<close>.
\<close>

record AIServiceConfig =
  Provider :: string
  BaseURL :: string
  APIKey :: string
  Model :: "string list"

datatype ImageClient =
    OpenAIImageClient string string string string
  | VolcEngineImageClient string string string string string
  | GeminiImageClient string string string string

record config_env =
  GetConfigForModel :: "string \<Rightarrow> string \<Rightarrow> string + AIServiceConfig"
  GetDefaultConfig :: "string \<Rightarrow> string + AIServiceConfig"

text \<open>The \<^verbatim>\<open>switch actualProvider\<close> that ends the function.\<close>

definition client_of_provider :: "string \<Rightarrow> AIServiceConfig \<Rightarrow> string \<Rightarrow> ImageClient" where
  "client_of_provider actualProvider config model =
     (if actualProvider = ''openai'' \<or> actualProvider = ''dalle'' then
        OpenAIImageClient (BaseURL config) (APIKey config) model ''/images/generations''
      else if actualProvider = ''chatfire'' then
        OpenAIImageClient (BaseURL config) (APIKey config) model ''/images/generations''
      else if actualProvider = ''volcengine'' \<or> actualProvider = ''volces''
              \<or> actualProvider = ''doubao'' then
        VolcEngineImageClient (BaseURL config) (APIKey config) model ''/images/generations'' ''''
      else if actualProvider = ''gemini'' \<or> actualProvider = ''google'' then
        GeminiImageClient (BaseURL config) (APIKey config) model
          ''/v1beta/models/{model}:generateContent''
      else
        OpenAIImageClient (BaseURL config) (APIKey config) model ''/images/generations'')"

text \<open>Everything after the configuration is known: model name, provider, client.\<close>

definition client_of_config :: "string \<Rightarrow> string \<Rightarrow> AIServiceConfig \<Rightarrow> ImageClient" where
  "client_of_config provider modelName config =
     (let model = (if modelName = [] \<and> Model config \<noteq> [] then hd (Model config) else modelName);
          actualProvider = (if Provider config = [] then provider else Provider config)
      in client_of_provider actualProvider config model)"

definition getImageClientWithModel ::
  "config_env \<Rightarrow> string \<Rightarrow> string \<Rightarrow> log_entry list \<times> (string + ImageClient)" where
  "getImageClientWithModel env provider modelName =
     (if modelName \<noteq> [] then
        (case GetConfigForModel env ''image'' modelName of
           Inr config \<Rightarrow> ([], Inr (client_of_config provider modelName config))
         | Inl err \<Rightarrow>
             (case GetDefaultConfig env ''image'' of
                Inl err' \<Rightarrow>
                  ([LogWarn ''Failed to get config for model, using default''],
                   Inl (''no image AI config found: '' @ err'))
              | Inr config \<Rightarrow>
                  ([LogWarn ''Failed to get config for model, using default''],
                   Inr (client_of_config provider modelName config))))
      else
        (case GetDefaultConfig env ''image'' of
           Inl err \<Rightarrow> ([], Inl (''no image AI config found: '' @ err))
         | Inr config \<Rightarrow> ([], Inr (client_of_config provider modelName config))))"

definition known_providers :: "string list" where
  "known_providers =
     [''openai'', ''dalle'', ''chatfire'', ''volcengine'', ''volces'', ''doubao'',
      ''gemini'', ''google'']"


text \<open>Two environments to run the resolution on: one with a default image configuration
  of a provider outside the known names, one with no configuration at all.\<close>

definition demo_configs :: config_env where
  "demo_configs =
     \<lparr>GetConfigForModel = (\<lambda>kind m. Inl ''model not found''),
      GetDefaultConfig = (\<lambda>kind. if kind = ''image''
         then Inr \<lparr>Provider = ''acme'', BaseURL = ''https://img.example/v1'', APIKey = ''key'',
                  Model = [''img-1'']\<rparr>
         else Inl ''no default'')\<rparr>"

definition no_configs :: config_env where
  "no_configs =
     \<lparr>GetConfigForModel = (\<lambda>kind m. Inl ''model not found''),
      GetDefaultConfig = (\<lambda>kind. Inl ''record not found'')\<rparr>"

lemma resolve_after_failed_lookup:
  "(modelName \<noteq> [] \<and> GetConfigForModel env ''image'' modelName = Inl e
      \<and> GetDefaultConfig env ''image'' = Inr cfg \<longrightarrow>
      getImageClientWithModel env provider modelName =
        ([LogWarn ''Failed to get config for model, using default''],
         Inr (client_of_config provider modelName cfg)))"
  by (simp add: getImageClientWithModel_def)

lemma resolve_error_only_without_default:
  "(snd (getImageClientWithModel env provider modelName) = Inl msg \<longrightarrow>
        (\<exists>e'. GetDefaultConfig env ''image'' = Inl e'
              \<and> msg = ''no image AI config found: '' @ e'))"
  by (auto simp: getImageClientWithModel_def split: sum.splits if_splits)

lemma resolve_client_from_found_config:
  "(snd (getImageClientWithModel env provider modelName) = Inr c \<longrightarrow>
        (\<exists>cfg'. (GetConfigForModel env ''image'' modelName = Inr cfg'
                  \<or> GetDefaultConfig env ''image'' = Inr cfg')
               \<and> c = client_of_config provider modelName cfg'))"
  by (auto simp: getImageClientWithModel_def split: sum.splits if_splits)

lemma unknown_provider_generic_client:
  "((if Provider cfg = [] then provider else Provider cfg) \<notin> set known_providers \<longrightarrow>
        (\<exists>m. client_of_config provider modelName cfg =
           OpenAIImageClient (BaseURL cfg) (APIKey cfg) m ''/images/generations''))"
  by (simp add: client_of_config_def client_of_provider_def known_providers_def Let_def)

text \<open>
  Claim C8. (1) With an explicit model name whose configuration lookup fails, the resolution
  logs a warning and builds the client from the default image configuration; the lookup
  error is not returned. (2) Whenever the resolution returns an error, the lookup of the
  default image configuration has failed, and the error wraps that failure. (3) Every client
  returned is built from a configuration that one of the two lookups found. (4) When the
  provider of that configuration (or, if it names none, the provider passed in) is none of
  openai, dalle, chatfire, volcengine, volces, doubao, gemini, google, the client is the
  OpenAI-compatible one with the endpoint \<^verbatim>\<open>/images/generations\<close>.
\<close>

theorem getImageClientWithModel_fallback:
  "(modelName \<noteq> [] \<and> GetConfigForModel env ''image'' modelName = Inl e
      \<and> GetDefaultConfig env ''image'' = Inr cfg \<longrightarrow>
      getImageClientWithModel env provider modelName =
        ([LogWarn ''Failed to get config for model, using default''],
         Inr (client_of_config provider modelName cfg)))
   \<and> (snd (getImageClientWithModel env provider modelName) = Inl msg \<longrightarrow>
        (\<exists>e'. GetDefaultConfig env ''image'' = Inl e'
              \<and> msg = ''no image AI config found: '' @ e'))
   \<and> (snd (getImageClientWithModel env provider modelName) = Inr c \<longrightarrow>
        (\<exists>cfg'. (GetConfigForModel env ''image'' modelName = Inr cfg'
                  \<or> GetDefaultConfig env ''image'' = Inr cfg')
               \<and> c = client_of_config provider modelName cfg'))
   \<and> ((if Provider cfg = [] then provider else Provider cfg) \<notin> set known_providers \<longrightarrow>
        (\<exists>m. client_of_config provider modelName cfg =
           OpenAIImageClient (BaseURL cfg) (APIKey cfg) m ''/images/generations''))"
  by (intro conjI resolve_after_failed_lookup resolve_error_only_without_default
        resolve_client_from_found_config unknown_provider_generic_client)

theorem getImageClientWithModel_fallback_witness:
  "''sdxl'' \<noteq> [] \<and> GetConfigForModel demo_configs ''image'' ''sdxl'' = Inl ''model not found''
   \<and> GetDefaultConfig demo_configs ''image'' =
        Inr \<lparr>Provider = ''acme'', BaseURL = ''https://img.example/v1'', APIKey = ''key'',
             Model = [''img-1'']\<rparr>
   \<and> ''acme'' \<notin> set known_providers
   \<and> getImageClientWithModel demo_configs ''openai'' ''sdxl'' =
        ([LogWarn ''Failed to get config for model, using default''],
         Inr (OpenAIImageClient ''https://img.example/v1'' ''key'' ''sdxl''
                ''/images/generations''))
   \<and> snd (getImageClientWithModel no_configs ''openai'' ''sdxl'') =
        Inl ''no image AI config found: record not found''
   \<and> GetDefaultConfig no_configs ''image'' = Inl ''record not found''"
proof -
  let ?cfg = "\<lparr>Provider = ''acme'', BaseURL = ''https://img.example/v1'', APIKey = ''key'',
        Model = [''img-1'']\<rparr>"
  have pre: "''sdxl'' \<noteq> [] \<and> GetConfigForModel demo_configs ''image'' ''sdxl'' = Inl ''model not found''
      \<and> GetDefaultConfig demo_configs ''image'' = Inr ?cfg"
    by (simp add: demo_configs_def)
  have unknown: "(if Provider ?cfg = [] then ''openai'' else Provider ?cfg) \<notin> set known_providers"
    by (simp add: known_providers_def)
  note inst = getImageClientWithModel_fallback [of "''sdxl''" demo_configs "''model not found''"
      ?cfg "''openai''" "''no image AI config found: record not found''"
      "OpenAIImageClient ''https://img.example/v1'' ''key'' ''sdxl'' ''/images/generations''"]
  from inst pre have run: "getImageClientWithModel demo_configs ''openai'' ''sdxl'' =
        ([LogWarn ''Failed to get config for model, using default''],
         Inr (client_of_config ''openai'' ''sdxl'' ?cfg))"
    by blast
  have built: "client_of_config ''openai'' ''sdxl'' ?cfg =
      OpenAIImageClient ''https://img.example/v1'' ''key'' ''sdxl'' ''/images/generations''"
    by (simp add: client_of_config_def client_of_provider_def)
  have failed: "snd (getImageClientWithModel no_configs ''openai'' ''sdxl'') =
        Inl ''no image AI config found: record not found''"
    by (simp add: getImageClientWithModel_def no_configs_def)
  have nodefault: "GetDefaultConfig no_configs ''image'' = Inl ''record not found''"
    by (simp add: no_configs_def)
  have acme: "''acme'' \<notin> set known_providers"
    by (simp add: known_providers_def)
  from pre run built failed nodefault acme show ?thesis by simp
qed

end
